theory Spec2Isabelle
  imports Complex_Main
begin

section \<open>Common data\<close>

text \<open>
  Instants (\<^verbatim>\<open>datetime\<close>, \<^verbatim>\<open>pd.Timestamp\<close>) are integers counting microseconds;
  \<^verbatim>\<open>timedelta(days=d)\<close> and \<^verbatim>\<open>timedelta(minutes=m)\<close> are the corresponding
  multiples. Python floats are modelled as real numbers; a nullable cell of a data frame
  (\<^verbatim>\<open>None\<close>/\<^verbatim>\<open>NaN\<close>) is \<open>None\<close>.
\<close>

type_synonym time = int

definition timedelta_days :: "int \<Rightarrow> time" where
  "timedelta_days d = d * 86400000000"

definition timedelta_minutes :: "int \<Rightarrow> time" where
  "timedelta_minutes m = m * 60000000"

type_synonym series = "real option list"

text \<open>Exceptions of the source, one constructor per exception class, with the message.\<close>

datatype exn =
    ValueError string
  | RuntimeError string
  | FinRLException string
  | FileNotFoundError string
  | IndexError
  | ZeroDivisionError

section \<open>yfinance\_client.py\<close>

text \<open>
  \<^verbatim>\<open>_align_length(values, length)\<close>: \<^verbatim>\<open>None\<close> gives \<^verbatim>\<open>[None] * length\<close>, an equal length
  returns the list, a longer list is sliced, a shorter one is extended by nulls.
\<close>

fun align_length :: "'a option list option \<Rightarrow> nat \<Rightarrow> 'a option list" where
  "align_length None n = replicate n None"
| "align_length (Some values) n =
     (if length values = n then values
      else if length values > n then take n values
      else values @ replicate (n - length values) None)"

text \<open>
  The provider's JSON body, as far as \<^verbatim>\<open>download_price_history\<close> reads it:
  \<^verbatim>\<open>chart.error.description\<close>, \<^verbatim>\<open>chart.result[0].timestamp\<close>,
  \<^verbatim>\<open>chart.result[0].indicators.quote[0]\<close> and
  \<^verbatim>\<open>chart.result[0].indicators.adjclose[0].adjclose\<close>. A key that is absent or
  \<^verbatim>\<open>null\<close> is \<open>None\<close>. The error object is either the empty object \<^verbatim>\<open>{}\<close> or an
  object with at least one key, of which only the description is read.
\<close>

datatype error_object = EmptyObject | ErrorObject "string option"

record quote =
  q_open :: "series option"
  q_high :: "series option"
  q_low :: "series option"
  q_close :: "series option"
  q_volume :: "series option"

record chart_result =
  r_timestamp :: "int list option"
  r_quote :: "quote list option"
  r_adjclose :: "series option list option"

record chart =
  chart_error :: "error_object option"
  chart_result :: "chart_result list option"

datatype body = NotJson | Json chart

datatype http_response = TransportFailure | Response nat body

text \<open>The data frame built at the end of \<^verbatim>\<open>download_price_history\<close>, column by column.\<close>

record price_frame =
  col_Date :: "time list"
  col_Open :: series
  col_High :: series
  col_Low :: series
  col_Close :: series
  col_Adj_Close :: series
  col_Volume :: series

definition empty_frame :: price_frame where
  "empty_frame = \<lparr>col_Date = [], col_Open = [], col_High = [], col_Low = [],
     col_Close = [], col_Adj_Close = [], col_Volume = []\<rparr>"

definition to_datetime_s :: "int \<Rightarrow> time" where
  "to_datetime_s ts = ts * 1000000"

text \<open>\<^verbatim>\<open>(xs or [{}])[0]\<close>: the first element, or the empty object \<open>d\<close>.\<close>

fun first_or :: "'a \<Rightarrow> 'a list option \<Rightarrow> 'a" where
  "first_or d None = d"
| "first_or d (Some []) = d"
| "first_or d (Some (x # xs)) = x"

definition empty_quote :: quote where
  "empty_quote = \<lparr>q_open = None, q_high = None, q_low = None, q_close = None,
     q_volume = None\<rparr>"

text \<open>
  \<^verbatim>\<open>if error := chart.get("error")\<close>: the test holds for an error object that is
  present and not empty; the result is its description (\<open>None\<close> when it has none).
\<close>

definition truthy_error :: "chart \<Rightarrow> string option option" where
  "truthy_error c =
     (case chart_error c of
        None \<Rightarrow> None
      | Some EmptyObject \<Rightarrow> None
      | Some (ErrorObject description) \<Rightarrow> Some description)"

text \<open>
  \<^verbatim>\<open>download_price_history(symbol, start, end)\<close>, given the provider's answer to the one
  GET request. \<^verbatim>\<open>raise_for_status\<close> raises for the status codes 400 to 599.
\<close>

definition download_price_history ::
  "string \<Rightarrow> time \<Rightarrow> time \<Rightarrow> http_response \<Rightarrow> exn + price_frame" where
  "download_price_history symbol start end response =
     (if end \<le> start then
        Inl (ValueError ''`end` must be greater than `start` when fetching history.'')
      else case response of
        TransportFailure \<Rightarrow> Inl (RuntimeError ''Unable to reach Yahoo Finance.'')
      | Response status b \<Rightarrow>
          if status = 429 then
            Inl (RuntimeError
              ''Yahoo Finance rate limit hit. Please wait a moment and try again.'')
          else if 400 \<le> status \<and> status < 600 then
            Inl (RuntimeError ''Unable to reach Yahoo Finance.'')
          else case b of
            NotJson \<Rightarrow> Inl (RuntimeError ''Unable to reach Yahoo Finance.'')
          | Json c \<Rightarrow>
              (case truthy_error c of
                 Some description \<Rightarrow>
                   Inl (RuntimeError
                     (case description of
                        None \<Rightarrow> ''Unknown Yahoo Finance error.''
                      | Some d \<Rightarrow> if d = [] then ''Unknown Yahoo Finance error.'' else d))
               | None \<Rightarrow>
                   (case chart_result c of
                      None \<Rightarrow> Inr empty_frame
                    | Some [] \<Rightarrow> Inr empty_frame
                    | Some (result # rest) \<Rightarrow>
                        (let timestamps = (case r_timestamp result of None \<Rightarrow> [] | Some ts \<Rightarrow> ts);
                             q = first_or empty_quote (r_quote result);
                             adj_close_values = first_or None (r_adjclose result)
                         in if timestamps = [] then Inr empty_frame
                            else
                              let n = length timestamps;
                                  opens = align_length (q_open q) n;
                                  highs = align_length (q_high q) n;
                                  lows = align_length (q_low q) n;
                                  closes = align_length (q_close q) n;
                                  volumes = align_length (q_volume q) n;
                                  adj_closes = align_length
                                    (case adj_close_values of
                                       Some a \<Rightarrow> Some a | None \<Rightarrow> Some closes) n
                              in Inr \<lparr>col_Date = map to_datetime_s timestamps,
                                      col_Open = opens, col_High = highs, col_Low = lows,
                                      col_Close = closes, col_Adj_Close = adj_closes,
                                      col_Volume = volumes\<rparr>))))"

text \<open>
  The alignment rule in the words of the specification: a series longer than \<open>n\<close> is
  truncated, a shorter one is padded with nulls at the tail, one of length \<open>n\<close> is
  unchanged. A series the provider left out is \<open>n\<close> nulls.
\<close>

definition aligned_per_spec :: "nat \<Rightarrow> series option \<Rightarrow> series \<Rightarrow> bool" where
  "aligned_per_spec n src out =
     (length out = n \<and>
      (case src of
         None \<Rightarrow> out = replicate n None
       | Some xs \<Rightarrow>
           (length xs > n \<longrightarrow> out = take n xs) \<and>
           (length xs < n \<longrightarrow> out = xs @ replicate (n - length xs) None) \<and>
           (length xs = n \<longrightarrow> out = xs)))"

section \<open>The signal translator (finrl\_integration.py, routers/predict.py)\<close>

text \<open>
  A raw action as the source tests it: a scalar, or a sequence that is a \<^verbatim>\<open>list\<close>, a
  \<^verbatim>\<open>tuple\<close> or a one-dimensional \<^verbatim>\<open>np.ndarray\<close> of scalars.
\<close>

datatype seq_kind = PyList | PyTuple | NdArray

datatype action_value = Scalar real | Sequence seq_kind "real list"

text \<open>
  The truth value that \<^verbatim>\<open>if action_value\<close> takes. A list or tuple is true when it is not
  empty. A NumPy array of one element has the truth value of the element, an array of
  several elements raises \<^verbatim>\<open>ValueError\<close>, and an empty array is false (NumPy before 2.2,
  where it only warns).
\<close>

definition ambiguous_truth_value :: string where
  "ambiguous_truth_value =
     ''The truth value of an array with more than one element is ambiguous. Use a.any() or a.all()''"

fun truth_value :: "seq_kind \<Rightarrow> real list \<Rightarrow> exn + bool" where
  "truth_value PyList xs = Inr (xs \<noteq> [])"
| "truth_value PyTuple xs = Inr (xs \<noteq> [])"
| "truth_value NdArray [] = Inr False"
| "truth_value NdArray [x] = Inr (x \<noteq> 0)"
| "truth_value NdArray (x # y # ys) = Inl (ValueError ambiguous_truth_value)"

text \<open>\<^verbatim>\<open>action_value[0]\<close>, which raises \<^verbatim>\<open>IndexError\<close> on an empty sequence.\<close>

fun item0 :: "real list \<Rightarrow> exn + real" where
  "item0 [] = Inl IndexError"
| "item0 (x # xs) = Inr x"

text \<open>
  \<^verbatim>\<open>_action_to_scalar\<close>, the same function in both files:
  \<^verbatim>\<open>if isinstance(action_value, (list, tuple, np.ndarray)):
      return float(action_value[0]) if action_value else 0.0
  return float(action_value)\<close>
\<close>

fun action_to_scalar :: "action_value \<Rightarrow> exn + real" where
  "action_to_scalar (Sequence kind xs) =
     (case truth_value kind xs of
        Inl e \<Rightarrow> Inl e
      | Inr b \<Rightarrow> if b then item0 xs else Inr 0)"
| "action_to_scalar (Scalar x) = Inr x"

text \<open>
  \<^verbatim>\<open>np.tanh\<close> and \<^verbatim>\<open>np.sqrt\<close> are the real functions; they are not computed, only
  reasoned about.
\<close>

definition np_tanh :: "real \<Rightarrow> real" where
  [code del]: "np_tanh x = tanh x"

definition np_sqrt :: "real \<Rightarrow> real" where
  [code del]: "np_sqrt x = sqrt x"

text \<open>
  \<^verbatim>\<open>round(x, ndigits)\<close> on real numbers: the nearest multiple of \<open>10 ^ - ndigits\<close>, a tie
  going to the even one.
\<close>

definition round_half_even :: "real \<Rightarrow> int" where
  "round_half_even x =
     (let f = \<lfloor>x\<rfloor>; d = x - of_int f
      in if d < 1 / 2 then f else if d > 1 / 2 then f + 1
         else if even f then f else f + 1)"

definition py_round :: "real \<Rightarrow> nat \<Rightarrow> real" where
  "py_round x ndigits = of_int (round_half_even (x * 10 ^ ndigits)) / 10 ^ ndigits"

text \<open>
  \<^verbatim>\<open>_estimate_price_from_action(reference_close, action, hmax)\<close>; \<^verbatim>\<open>action / hmax\<close>
  divides a float by an \<^verbatim>\<open>int\<close> and raises on \<open>hmax = 0\<close>.
\<close>

definition estimate_price_from_action :: "real \<Rightarrow> real option \<Rightarrow> int \<Rightarrow> exn + real" where
  "estimate_price_from_action reference_close action hmax =
     (case action of
        None \<Rightarrow> Inr reference_close
      | Some a \<Rightarrow>
          if hmax = 0 then Inl ZeroDivisionError
          else let signal = np_tanh (a / of_int hmax)
               in Inr (py_round (reference_close * (1 + signal * 0.01)) 4))"

text \<open>\<^verbatim>\<open>_estimate_price(latest_close, action, hmax)\<close> of the prediction router.\<close>

definition estimate_price :: "real \<Rightarrow> real option \<Rightarrow> int \<Rightarrow> exn + real" where
  "estimate_price latest_close action hmax =
     (case action of
        None \<Rightarrow> Inr latest_close
      | Some a \<Rightarrow>
          if hmax = 0 then Inl ZeroDivisionError
          else let signal = np_tanh (a / of_int hmax)
               in Inr (py_round (latest_close * (1 + signal * 0.01)) 4))"

section \<open>Effects: the clock and the external capabilities\<close>

text \<open>
  A computation that may read the clock, call an external capability (the data provider,
  the feature engineer, the trainer) and raise: it starts at an instant and ends at a
  later reading of the clock, with an exception or a value. \<^verbatim>\<open>datetime.utcnow()\<close> returns
  the current reading.
\<close>

type_synonym 'a io = "time \<Rightarrow> (exn + 'a) \<times> time"

definition return_io :: "'a \<Rightarrow> 'a io" where
  "return_io x = (\<lambda>t. (Inr x, t))"

definition raise_io :: "exn \<Rightarrow> 'a io" where
  "raise_io e = (\<lambda>t. (Inl e, t))"

definition bind_io :: "'a io \<Rightarrow> ('a \<Rightarrow> 'b io) \<Rightarrow> 'b io" where
  "bind_io m f = (\<lambda>t. case m t of (Inl e, t') \<Rightarrow> (Inl e, t') | (Inr x, t') \<Rightarrow> f x t')"

definition utcnow :: "time io" where
  "utcnow = (\<lambda>t. (Inr t, t))"

section \<open>Market data frames\<close>

text \<open>
  A row of the provider's frame (\<^verbatim>\<open>Date\<close>, \<^verbatim>\<open>Open\<close>, ..., \<^verbatim>\<open>Volume\<close>, values possibly
  null), and a row of \<^verbatim>\<open>raw_df\<close>: the renamed columns with the ticker, after
  \<^verbatim>\<open>dropna()\<close>, when every column has a value.
\<close>

record candle =
  c_Date :: time
  c_Open :: "real option"
  c_High :: "real option"
  c_Low :: "real option"
  c_Close :: "real option"
  c_Adj_Close :: "real option"
  c_Volume :: "real option"

record bar =
  b_date :: time
  b_tic :: string
  b_open :: real
  b_high :: real
  b_low :: real
  b_close :: real
  b_adj_close :: real
  b_volume :: real

text \<open>
  \<^verbatim>\<open>frame["tic"] = symbol\<close>, the selection and renaming of the columns, and
  \<^verbatim>\<open>dropna()\<close>: a row with a null in any column is dropped.
\<close>

definition to_bar :: "string \<Rightarrow> candle \<Rightarrow> bar option" where
  "to_bar symbol c =
     (case (c_Open c, c_High c, c_Low c, c_Close c, c_Adj_Close c, c_Volume c) of
        (Some opn, Some high, Some low, Some cls, Some adj, Some vol) \<Rightarrow>
          Some \<lparr>b_date = c_Date c, b_tic = symbol, b_open = opn, b_high = high,
                b_low = low, b_close = cls, b_adj_close = adj, b_volume = vol\<rparr>
      | _ \<Rightarrow> None)"

definition dropna_bars :: "string \<Rightarrow> candle list \<Rightarrow> bar list" where
  "dropna_bars symbol data = List.map_filter (to_bar symbol) data"

text \<open>
  \<^verbatim>\<open>FinRLService._download_market_data(symbol)\<close>; \<^verbatim>\<open>yf.download\<close> is external.
  \<^verbatim>\<open>sort_values("date")\<close> is modelled by a stable sort.
\<close>

definition no_data_message :: "string \<Rightarrow> string" where
  "no_data_message symbol =
     ''No Yahoo Finance data returned for '' @ symbol @ ''. Check the ticker symbol.''"

definition insufficient_message :: "string \<Rightarrow> string" where
  "insufficient_message symbol =
     ''Insufficient historical data for '' @ symbol @ ''. Try expanding the window.''"

definition download_market_data ::
  "(string \<Rightarrow> time \<Rightarrow> time \<Rightarrow> candle list io) \<Rightarrow> int \<Rightarrow> string \<Rightarrow> bar list io" where
  "download_market_data yf_download lookback_years symbol =
     bind_io utcnow (\<lambda>end.
       let start = end - timedelta_days (365 * lookback_years) in
       bind_io (yf_download symbol start end) (\<lambda>data.
         if data = [] then raise_io (FinRLException (no_data_message symbol))
         else
           let frame = sort_key b_date (dropna_bars symbol data) in
           if frame = [] \<or> length frame < 100 then
             raise_io (FinRLException (insufficient_message symbol))
           else return_io frame))"

text \<open>
  \<^verbatim>\<open>_fetch_market_data(symbol)\<close> of the prediction router. The GET request of
  \<^verbatim>\<open>download_price_history\<close> is the external call \<open>http_get\<close>; a \<^verbatim>\<open>RuntimeError\<close> is
  re-raised as \<^verbatim>\<open>ValueError\<close> with the same message.
\<close>

definition LOOKBACK_DAYS :: int where
  "LOOKBACK_DAYS = 365"

definition frame_rows :: "price_frame \<Rightarrow> candle list" where
  "frame_rows f =
     map (\<lambda>(d, opn, high, low, cls, adj, vol).
            \<lparr>c_Date = d, c_Open = opn, c_High = high, c_Low = low, c_Close = cls,
             c_Adj_Close = adj, c_Volume = vol\<rparr>)
       (zip (col_Date f) (zip (col_Open f) (zip (col_High f) (zip (col_Low f)
         (zip (col_Close f) (zip (col_Adj_Close f) (col_Volume f)))))))"

definition router_no_data_message :: "string \<Rightarrow> string" where
  "router_no_data_message symbol = ''No Yahoo Finance data returned for '' @ symbol @ ''.''"

definition router_insufficient_message :: "string \<Rightarrow> string" where
  "router_insufficient_message symbol = ''Insufficient historical data for '' @ symbol @ ''.''"

definition fetch_market_data ::
  "(string \<Rightarrow> time \<Rightarrow> time \<Rightarrow> http_response io) \<Rightarrow> string \<Rightarrow> bar list io" where
  "fetch_market_data http_get symbol =
     bind_io utcnow (\<lambda>end.
       let start = end - timedelta_days LOOKBACK_DAYS in
       bind_io (http_get symbol start end) (\<lambda>response.
         case download_price_history symbol start end response of
           Inl (RuntimeError msg) \<Rightarrow> raise_io (ValueError msg)
         | Inl e \<Rightarrow> raise_io e
         | Inr data \<Rightarrow>
             if col_Date data = [] then raise_io (ValueError (router_no_data_message symbol))
             else
               let frame = sort_key b_date (dropna_bars symbol (frame_rows data)) in
               if frame = [] \<or> length frame < 30 then
                 raise_io (ValueError (router_insufficient_message symbol))
               else return_io frame))"

section \<open>Feature engineering and the split\<close>

text \<open>
  A row of the frame that \<^verbatim>\<open>FeatureEngineer.preprocess_data\<close> (external) returns: the
  columns the source reads by name (\<^verbatim>\<open>date\<close>, \<^verbatim>\<open>tic\<close>, \<^verbatim>\<open>close\<close>) and the other columns
  (prices, volume, indicators) in order. Any cell may be null.
\<close>

record feature_row =
  f_date :: "time option"
  f_tic :: "string option"
  f_close :: "real option"
  f_other :: "real option list"

text \<open>\<^verbatim>\<open>ffill()\<close>: in every column a null cell takes the last value above it.\<close>

definition fill_cell :: "'a option \<Rightarrow> 'a option \<Rightarrow> 'a option" where
  "fill_cell prev cell = (case cell of None \<Rightarrow> prev | Some v \<Rightarrow> Some v)"

fun fill_cells :: "'a option list \<Rightarrow> 'a option list \<Rightarrow> 'a option list" where
  "fill_cells (p # ps) (c # cs) = fill_cell p c # fill_cells ps cs"
| "fill_cells [] cs = cs"
| "fill_cells ps [] = []"

definition fill_row :: "feature_row \<Rightarrow> feature_row \<Rightarrow> feature_row" where
  "fill_row prev row =
     \<lparr>f_date = fill_cell (f_date prev) (f_date row),
      f_tic = fill_cell (f_tic prev) (f_tic row),
      f_close = fill_cell (f_close prev) (f_close row),
      f_other = fill_cells (f_other prev) (f_other row)\<rparr>"

fun ffill_from :: "feature_row \<Rightarrow> feature_row list \<Rightarrow> feature_row list" where
  "ffill_from prev [] = []"
| "ffill_from prev (row # rows) =
     (let filled = fill_row prev row in filled # ffill_from filled rows)"

fun ffill :: "feature_row list \<Rightarrow> feature_row list" where
  "ffill [] = []"
| "ffill (row # rows) = row # ffill_from row rows"

text \<open>\<^verbatim>\<open>dropna()\<close>: only the rows without a null cell stay.\<close>

definition no_nulls :: "feature_row \<Rightarrow> bool" where
  "no_nulls row =
     (f_date row \<noteq> None \<and> f_tic row \<noteq> None \<and> f_close row \<noteq> None
      \<and> list_all (\<lambda>c. c \<noteq> None) (f_other row))"

definition dropna :: "feature_row list \<Rightarrow> feature_row list" where
  "dropna df = filter no_nulls df"

text \<open>
  \<^verbatim>\<open>_engineer_features(raw_df)\<close>, the same in both files:
  \<^verbatim>\<open>fe.preprocess_data(raw_df)\<close>, then \<^verbatim>\<open>ffill().dropna()\<close>.
\<close>

definition engineer_features ::
  "(bar list \<Rightarrow> feature_row list io) \<Rightarrow> bar list \<Rightarrow> feature_row list io" where
  "engineer_features preprocess_data raw_df =
     bind_io (preprocess_data raw_df) (\<lambda>processed. return_io (dropna (ffill processed)))"

text \<open>
  \<^verbatim>\<open>df["date"].max()\<close> and \<^verbatim>\<open>min()\<close> skip nulls and are null (\<^verbatim>\<open>NaT\<close>) when no date is
  left; arithmetic on \<^verbatim>\<open>NaT\<close> gives \<^verbatim>\<open>NaT\<close> and every comparison with it is false.
\<close>

definition date_max :: "feature_row list \<Rightarrow> time option" where
  "date_max df = (case List.map_filter f_date df of [] \<Rightarrow> None | d # ds \<Rightarrow> Some (fold max ds d))"

definition date_min :: "feature_row list \<Rightarrow> time option" where
  "date_min df = (case List.map_filter f_date df of [] \<Rightarrow> None | d # ds \<Rightarrow> Some (fold min ds d))"

definition le_ts :: "time option \<Rightarrow> time option \<Rightarrow> bool" where
  "le_ts a b = (case (a, b) of (Some x, Some y) \<Rightarrow> x \<le> y | _ \<Rightarrow> False)"

definition not_enough_rows_message :: string where
  "not_enough_rows_message =
     ''Not enough rows to create training and testing windows. ''
     @ ''Reduce FINRL_TEST_WINDOW_DAYS or extend lookback.''"

text \<open>
  \<^verbatim>\<open>_split_dataframes(df)\<close>; FinRL's \<^verbatim>\<open>data_split(df, start, end)\<close> is external.
\<close>

definition split_dataframes ::
  "(feature_row list \<Rightarrow> time option \<Rightarrow> time option \<Rightarrow> feature_row list) \<Rightarrow> int
    \<Rightarrow> feature_row list \<Rightarrow> exn + feature_row list \<times> feature_row list" where
  "split_dataframes data_split test_window_days df =
     (let last_date = date_max df;
          split_date = map_option (\<lambda>d. d - timedelta_days test_window_days) last_date
      in if le_ts split_date (date_min df) then
           Inl (FinRLException not_enough_rows_message)
         else
           let train = data_split df (date_min df) split_date;
               test = data_split df split_date last_date
           in if train = [] \<or> test = [] then
                Inl (FinRLException ''Empty training or testing dataset produced.'')
              else Inr (train, test))"

section \<open>Concrete inputs\<close>

text \<open>
  A provider answer of 100 complete daily candles, and a feature engineer whose indicator
  column has no value in its first row (an indicator that needs a previous bar).
\<close>

definition example_candles :: "candle list" where
  "example_candles =
     map (\<lambda>i. \<lparr>c_Date = timedelta_days (int i), c_Open = Some 1, c_High = Some 1,
               c_Low = Some 1, c_Close = Some 1, c_Adj_Close = Some 1,
               c_Volume = Some 1\<rparr>) [0..<100]"

definition example_download :: "string \<Rightarrow> time \<Rightarrow> time \<Rightarrow> candle list io" where
  "example_download symbol start end = return_io example_candles"

definition example_row :: "real option \<Rightarrow> bar \<Rightarrow> feature_row" where
  "example_row indicator b =
     \<lparr>f_date = Some (b_date b), f_tic = Some (b_tic b), f_close = Some (b_close b),
      f_other = [indicator]\<rparr>"

definition example_preprocess :: "bar list \<Rightarrow> feature_row list io" where
  "example_preprocess raw_df =
     return_io (case raw_df of [] \<Rightarrow> []
                | b # bs \<Rightarrow> example_row None b # map (example_row (Some 0)) bs)"

text \<open>A provider answer to the router: five timestamps and a close series of three.\<close>

definition example_response :: http_response where
  "example_response =
     Response 200 (Json \<lparr>chart_error = None,
       chart_result = Some [\<lparr>r_timestamp = Some [1, 2, 3, 4, 5],
         r_quote = Some [\<lparr>q_open = Some [Some 1, Some 1, Some 1],
           q_high = Some [Some 1, Some 1, Some 1], q_low = Some [Some 1, Some 1, Some 1],
           q_close = Some [Some 10, Some 11, Some 12],
           q_volume = Some [Some 1, Some 1, Some 1]\<rparr>],
         r_adjclose = None\<rparr>]\<rparr>)"

definition example_get :: "string \<Rightarrow> time \<Rightarrow> time \<Rightarrow> http_response io" where
  "example_get symbol start end = return_io example_response"

section \<open>Trainer records and payloads\<close>

text \<open>
  The frames that \<^verbatim>\<open>DRLAgent.DRL_prediction\<close> (external) returns: one account value and
  one action per simulated step.
\<close>

record account_row =
  acc_date :: time
  account_value :: real

record action_row =
  a_date :: time
  a_actions :: action_value

record env_kwargs =
  kw_hmax :: int
  kw_initial_amount :: int
  kw_buy_cost_pct :: "real list"
  kw_sell_cost_pct :: "real list"
  kw_state_space :: nat
  kw_stock_dim :: nat
  kw_tech_indicator_list :: "string list"
  kw_action_space :: nat
  kw_reward_scaling :: real
  kw_num_stock_shares :: "int list"

text \<open>
  \<^verbatim>\<open>_build_env_kwargs(train_df)\<close>; \<^verbatim>\<open>INDICATORS\<close> is a constant of FinRL and a parameter
  here. \<^verbatim>\<open>train_df.tic.unique()\<close> lists every distinct value once.
\<close>

definition build_env_kwargs :: "string list \<Rightarrow> feature_row list \<Rightarrow> env_kwargs" where
  "build_env_kwargs INDICATORS train_df =
     (let stock_dim = length (remdups (map f_tic train_df));
          state_space = 1 + 2 * stock_dim + length INDICATORS * stock_dim
      in \<lparr>kw_hmax = 100, kw_initial_amount = 100000,
          kw_buy_cost_pct = replicate stock_dim 0.001,
          kw_sell_cost_pct = replicate stock_dim 0.001,
          kw_state_space = state_space, kw_stock_dim = stock_dim,
          kw_tech_indicator_list = INDICATORS, kw_action_space = stock_dim,
          kw_reward_scaling = 0.0001, kw_num_stock_shares = replicate stock_dim 0\<rparr>)"

definition DISCLAIMER_TEXT :: string where
  "DISCLAIMER_TEXT =
     ''Educational use only. These FinRL-driven simulations are NOT financial advice.''"

text \<open>
  \<^verbatim>\<open>_to_datetime\<close> turns a timestamp into a naive UTC \<^verbatim>\<open>datetime\<close>; the instants of
  this model are already such.
\<close>

definition to_datetime :: "time \<Rightarrow> time" where
  "to_datetime v = v"

text \<open>
  \<^verbatim>\<open>frame.iloc[i]\<close>: a negative position counts from the end, a position outside the
  frame raises \<^verbatim>\<open>IndexError\<close>. \<^verbatim>\<open>frame.tail(n)\<close> is the last \<open>n\<close> rows, in order.
\<close>

definition iloc :: "'a list \<Rightarrow> int \<Rightarrow> exn + 'a" where
  "iloc rows i =
     (let k = (if i < 0 then i + int (length rows) else i)
      in if k < 0 \<or> int (length rows) \<le> k then Inl IndexError else Inr (rows ! nat k))"

definition tail :: "nat \<Rightarrow> 'a list \<Rightarrow> 'a list" where
  "tail n rows = drop (length rows - n) rows"

definition lift_io :: "exn + 'a \<Rightarrow> 'a io" where
  "lift_io r = (\<lambda>t. (r, t))"

text \<open>\<^verbatim>\<open>_extract_action(actions, position)\<close>.\<close>

definition extract_action :: "action_row list \<Rightarrow> int \<Rightarrow> exn + real option" where
  "extract_action actions position =
     (if actions = [] then Inr None
      else case iloc actions position of
        Inl e \<Rightarrow> Inl e
      | Inr row \<Rightarrow>
          (case action_to_scalar (a_actions row) of
             Inl e \<Rightarrow> Inl e
           | Inr x \<Rightarrow> Inr (Some x)))"

record price_point =
  pp_date :: time
  pp_value :: real

record prediction_point =
  pt_date :: time
  pt_predicted_close :: real

record prediction_payload =
  p_symbol :: string
  p_latest_close :: real
  p_predicted_next_close :: real
  p_generated_at :: time
  p_price_history :: "price_point list"
  p_prediction_point :: prediction_point
  p_disclaimer :: string

text \<open>\<^verbatim>\<open>_build_prediction_payload(symbol, raw_df, actions, env_kwargs)\<close>.\<close>

definition build_prediction_payload ::
  "string \<Rightarrow> bar list \<Rightarrow> action_row list \<Rightarrow> env_kwargs \<Rightarrow> prediction_payload io" where
  "build_prediction_payload symbol raw_df actions env =
     bind_io (lift_io (iloc raw_df (- 1))) (\<lambda>latest_row.
       let latest_close = b_close latest_row;
           history = map (\<lambda>row. \<lparr>pp_date = to_datetime (b_date row), pp_value = b_close row\<rparr>)
                       (tail 240 raw_df)
       in bind_io (lift_io (extract_action actions (- 1))) (\<lambda>last_action.
            bind_io (lift_io (estimate_price_from_action latest_close last_action (kw_hmax env)))
              (\<lambda>predicted_next_close.
                 let next_date = to_datetime (b_date latest_row) + timedelta_days 1
                 in bind_io utcnow (\<lambda>generated_at.
                      return_io
                        \<lparr>p_symbol = symbol, p_latest_close = latest_close,
                         p_predicted_next_close = predicted_next_close,
                         p_generated_at = generated_at,
                         p_price_history = history,
                         p_prediction_point =
                           \<lparr>pt_date = next_date,
                            pt_predicted_close = predicted_next_close\<rparr>,
                         p_disclaimer = DISCLAIMER_TEXT\<rparr>))))"

section \<open>Metrics\<close>

text \<open>
  Where pandas divides by zero the result is an infinity or \<^verbatim>\<open>NaN\<close>; these are the
  values of a float series in the metrics.
\<close>

datatype xreal = Finite real | PosInf | NegInf | NaN

definition x_div :: "real \<Rightarrow> real \<Rightarrow> xreal" where
  "x_div a b =
     (if b \<noteq> 0 then Finite (a / b)
      else if 0 < a then PosInf else if a < 0 then NegInf else NaN)"

text \<open>\<^verbatim>\<open>series.pct_change()\<close>: undefined in the first step, then \<open>cur / prev - 1\<close>.\<close>

definition change :: "real \<Rightarrow> real \<Rightarrow> xreal" where
  "change prev cur = (case x_div cur prev of Finite q \<Rightarrow> Finite (q - 1) | other \<Rightarrow> other)"

fun changes :: "real \<Rightarrow> real list \<Rightarrow> xreal list" where
  "changes prev [] = []"
| "changes prev (cur # rest) = change prev cur # changes cur rest"

fun pct_change :: "real list \<Rightarrow> xreal list" where
  "pct_change [] = []"
| "pct_change (x # xs) = NaN # changes x xs"

definition dropna_x :: "xreal list \<Rightarrow> xreal list" where
  "dropna_x xs = filter (\<lambda>x. x \<noteq> NaN) xs"

text \<open>The finite values of a series, when all its values are finite.\<close>

fun finite_values :: "xreal list \<Rightarrow> real list option" where
  "finite_values [] = Some []"
| "finite_values (Finite r # xs) = map_option ((#) r) (finite_values xs)"
| "finite_values (x # xs) = None"

definition mean :: "real list \<Rightarrow> real" where
  "mean rs = sum_list rs / real (length rs)"

text \<open>
  \<^verbatim>\<open>returns.std()\<close>, the sample standard deviation: \<^verbatim>\<open>NaN\<close> for fewer than two
  samples and for a series with an infinity.
\<close>

definition std :: "xreal list \<Rightarrow> xreal" where
  "std xs =
     (case finite_values xs of
        None \<Rightarrow> NaN
      | Some rs \<Rightarrow>
          if length rs < 2 then NaN
          else Finite (np_sqrt (sum_list (map (\<lambda>r. (r - mean rs)\<^sup>2) rs) / real (length rs - 1))))"

text \<open>\<^verbatim>\<open>series.cummax()\<close>.\<close>

fun cummax_from :: "real \<Rightarrow> real list \<Rightarrow> real list" where
  "cummax_from m [] = []"
| "cummax_from m (x # xs) = (let m' = max m x in m' # cummax_from m' xs)"

fun cummax :: "real list \<Rightarrow> real list" where
  "cummax [] = []"
| "cummax (x # xs) = x # cummax_from x xs"

text \<open>\<^verbatim>\<open>drawdowns.min()\<close> skips \<^verbatim>\<open>NaN\<close> and is \<^verbatim>\<open>NaN\<close> when nothing is left.\<close>

fun x_min2 :: "xreal \<Rightarrow> xreal \<Rightarrow> xreal" where
  "x_min2 NegInf y = NegInf"
| "x_min2 x NegInf = NegInf"
| "x_min2 PosInf y = y"
| "x_min2 x PosInf = x"
| "x_min2 (Finite a) (Finite b) = Finite (min a b)"
| "x_min2 NaN y = y"
| "x_min2 x NaN = x"

definition x_min :: "xreal list \<Rightarrow> xreal" where
  "x_min xs = (case dropna_x xs of [] \<Rightarrow> NaN | y # ys \<Rightarrow> fold x_min2 ys y)"

definition x_scale :: "xreal \<Rightarrow> real \<Rightarrow> xreal" where
  "x_scale x k = (case x of Finite r \<Rightarrow> Finite (r * k) | other \<Rightarrow> other)"

definition x_round :: "xreal \<Rightarrow> nat \<Rightarrow> xreal" where
  "x_round x ndigits = (case x of Finite r \<Rightarrow> Finite (py_round r ndigits) | other \<Rightarrow> other)"

record metrics =
  m_final_equity :: real
  m_total_return_pct :: real
  m_sharpe_ratio :: real
  m_max_drawdown_pct :: xreal

text \<open>
  \<^verbatim>\<open>_calculate_metrics(account_memory)\<close>. \<^verbatim>\<open>series.iloc[-1]\<close> raises on an empty frame,
  and the division of two Python floats raises when the first account value is 0.
\<close>

definition calculate_metrics :: "account_row list \<Rightarrow> exn + metrics" where
  "calculate_metrics account_memory =
     (let series = map account_value account_memory in
      case iloc series (- 1) of
        Inl e \<Rightarrow> Inl e
      | Inr final_equity \<Rightarrow>
          (case iloc series 0 of
             Inl e \<Rightarrow> Inl e
           | Inr first \<Rightarrow>
               if first = 0 then Inl ZeroDivisionError
               else
                 let total_return = (final_equity / first - 1) * 100;
                     returns = dropna_x (pct_change series);
                     sharpe =
                       (case (finite_values returns, std returns) of
                          (Some rs, Finite s) \<Rightarrow>
                            if returns \<noteq> [] \<and> 0 < s then (mean rs / s) * np_sqrt 252 else 0
                        | _ \<Rightarrow> 0);
                     rolling_max = cummax series;
                     drawdowns = map (\<lambda>(s, m). x_div (s - m) m) (zip series rolling_max);
                     max_drawdown =
                       (if drawdowns \<noteq> [] then x_scale (x_min drawdowns) 100 else Finite 0)
                 in Inr \<lparr>m_final_equity = py_round final_equity 2,
                         m_total_return_pct = py_round total_return 2,
                         m_sharpe_ratio = py_round sharpe 3,
                         m_max_drawdown_pct = x_round max_drawdown 2\<rparr>))"

section \<open>Price comparison and the backtest payload\<close>

text \<open>
  \<^verbatim>\<open>test_df[["date", "close"]].groupby("date").mean()\<close>: one row per date, in ascending
  order, with the mean of the closes of that date (null when it has none).
\<close>

definition mean_close :: "feature_row list \<Rightarrow> time \<Rightarrow> real option" where
  "mean_close df d =
     (let vals = List.map_filter f_close (filter (\<lambda>row. f_date row = Some d) df)
      in if vals = [] then None else Some (mean vals))"

definition closes_by_date :: "feature_row list \<Rightarrow> (time \<times> real option) list" where
  "closes_by_date df =
     map (\<lambda>d. (d, mean_close df d)) (sort (remdups (List.map_filter f_date df)))"

text \<open>
  The signal column: \<^verbatim>\<open>np.tanh(actions.apply(_action_to_scalar) / hmax)\<close>. The division
  of a series by 0 gives an infinity or \<^verbatim>\<open>NaN\<close>, whose \<^verbatim>\<open>tanh\<close> is 1, -1 or \<^verbatim>\<open>NaN\<close>.
\<close>

definition signal_of :: "real \<Rightarrow> int \<Rightarrow> real option" where
  "signal_of a h =
     (case x_div a (of_int h) of
        Finite q \<Rightarrow> Some (np_tanh q) | PosInf \<Rightarrow> Some 1 | NegInf \<Rightarrow> Some (- 1) | NaN \<Rightarrow> None)"

fun signals :: "action_row list \<Rightarrow> int \<Rightarrow> exn + (time \<times> real option) list" where
  "signals [] h = Inr []"
| "signals (row # rows) h =
     (case action_to_scalar (a_actions row) of
        Inl e \<Rightarrow> Inl e
      | Inr x \<Rightarrow>
          (case signals rows h of
             Inl e \<Rightarrow> Inl e
           | Inr rest \<Rightarrow> Inr ((a_date row, signal_of x h) # rest)))"

text \<open>
  \<^verbatim>\<open>closes.merge(action_frame[["date", "signal"]], on="date", how="left")\<close>: every close
  row once for each action row of its date, or once with a null signal.
\<close>

definition merge_left ::
  "(time \<times> real option) list \<Rightarrow> (time \<times> real option) list
    \<Rightarrow> (time \<times> real option \<times> real option) list" where
  "merge_left closes action_frame =
     concat (map (\<lambda>(d, c).
        let matches = filter (\<lambda>(ad, s). ad = d) action_frame
        in if matches = [] then [(d, c, None)]
           else map (\<lambda>(ad, s). (d, c, s)) matches) closes)"

text \<open>\<^verbatim>\<open>ffill().fillna(0.0)\<close> on the signal column.\<close>

fun fill_signal :: "real \<Rightarrow> (time \<times> real option \<times> real option) list
    \<Rightarrow> (time \<times> real option \<times> real) list" where
  "fill_signal last_signal [] = []"
| "fill_signal last_signal ((d, c, s) # rows) =
     (let v = (case s of None \<Rightarrow> last_signal | Some x \<Rightarrow> x)
      in (d, c, v) # fill_signal v rows)"

record comparison_row =
  cr_date :: time
  cr_actual_close :: "real option"
  cr_predicted_close :: "real option"

text \<open>
  \<^verbatim>\<open>close.shift(1).fillna(close)\<close>, scaled by \<open>1 + signal * 0.01\<close>; \<open>prev\<close> is the close of
  the row before (null for the first row).
\<close>

fun predicted_rows :: "real option \<Rightarrow> (time \<times> real option \<times> real) list \<Rightarrow> comparison_row list" where
  "predicted_rows prev [] = []"
| "predicted_rows prev ((d, c, s) # rows) =
     (let base = (case prev of None \<Rightarrow> c | Some p \<Rightarrow> Some p)
      in \<lparr>cr_date = to_datetime d, cr_actual_close = c,
          cr_predicted_close = map_option (\<lambda>b. b * (1 + s * 0.01)) base\<rparr>
         # predicted_rows c rows)"

text \<open>\<^verbatim>\<open>_build_price_comparison(actions, test_df, hmax)\<close>.\<close>

definition build_price_comparison ::
  "action_row list \<Rightarrow> feature_row list \<Rightarrow> int \<Rightarrow> exn + comparison_row list" where
  "build_price_comparison actions test_df h =
     (let closes = closes_by_date test_df in
      if closes = [] then Inr []
      else case (if actions \<noteq> [] then signals actions h else Inr []) of
        Inl e \<Rightarrow> Inl e
      | Inr action_frame \<Rightarrow>
          (let merged = sort_key fst (merge_left closes action_frame)
           in Inr (predicted_rows None (fill_signal 0 merged))))"

record equity_point =
  e_date :: time
  e_equity :: real

record backtest_payload =
  bt_symbol :: string
  bt_generated_at :: time
  bt_equity_curve :: "equity_point list"
  bt_price_comparison :: "comparison_row list"
  bt_metrics :: metrics
  bt_disclaimer :: string

text \<open>\<^verbatim>\<open>_build_backtest_payload(symbol, account_memory, actions, test_df, env_kwargs)\<close>.\<close>

definition build_backtest_payload ::
  "string \<Rightarrow> account_row list \<Rightarrow> action_row list \<Rightarrow> feature_row list \<Rightarrow> env_kwargs
    \<Rightarrow> backtest_payload io" where
  "build_backtest_payload symbol account_memory actions test_df env =
     (let equity_curve =
            map (\<lambda>row. \<lparr>e_date = to_datetime (acc_date row), e_equity = account_value row\<rparr>)
              account_memory
      in bind_io (lift_io (calculate_metrics account_memory)) (\<lambda>m.
           bind_io (lift_io (build_price_comparison actions test_df (kw_hmax env)))
             (\<lambda>price_rows.
                bind_io utcnow (\<lambda>generated_at.
                  return_io
                    \<lparr>bt_symbol = symbol, bt_generated_at = generated_at,
                     bt_equity_curve = equity_curve, bt_price_comparison = price_rows,
                     bt_metrics = m, bt_disclaimer = DISCLAIMER_TEXT\<rparr>))))"

section \<open>The training pipeline and the prediction cache\<close>

text \<open>
  The external capabilities of \<^verbatim>\<open>FinRLService\<close>: \<^verbatim>\<open>yf.download\<close>,
  \<^verbatim>\<open>FeatureEngineer.preprocess_data\<close>, FinRL's \<^verbatim>\<open>data_split\<close> and \<^verbatim>\<open>INDICATORS\<close>, the
  training of a PPO agent for a number of timesteps, and \<^verbatim>\<open>DRLAgent.DRL_prediction\<close>.
  The configuration is \<^verbatim>\<open>settings\<close>.
\<close>

record 'm externals =
  ext_yf_download :: "string \<Rightarrow> time \<Rightarrow> time \<Rightarrow> candle list io"
  ext_preprocess_data :: "bar list \<Rightarrow> feature_row list io"
  ext_data_split :: "feature_row list \<Rightarrow> time option \<Rightarrow> time option \<Rightarrow> feature_row list"
  ext_INDICATORS :: "string list"
  ext_train_model :: "feature_row list \<Rightarrow> env_kwargs \<Rightarrow> int \<Rightarrow> 'm io"
  ext_DRL_prediction ::
    "'m \<Rightarrow> feature_row list \<Rightarrow> env_kwargs \<Rightarrow> (account_row list \<times> action_row list) io"

record settings =
  lookback_years :: int
  test_window_days :: int
  training_timesteps :: int
  cache_ttl_minutes :: int

definition train_agent :: "'m externals \<Rightarrow> settings \<Rightarrow> feature_row list \<Rightarrow> env_kwargs \<Rightarrow> 'm io" where
  "train_agent ext cfg train_df env = ext_train_model ext train_df env (training_timesteps cfg)"

definition run_trading_loop ::
  "'m externals \<Rightarrow> 'm \<Rightarrow> feature_row list \<Rightarrow> env_kwargs
    \<Rightarrow> (account_row list \<times> action_row list) io" where
  "run_trading_loop ext model test_df env = ext_DRL_prediction ext model test_df env"

text \<open>\<^verbatim>\<open>_run_pipeline(symbol)\<close>: the stages in order, the first exception ends the run.\<close>

definition run_pipeline ::
  "'m externals \<Rightarrow> settings \<Rightarrow> string \<Rightarrow> (prediction_payload \<times> backtest_payload) io" where
  "run_pipeline ext cfg symbol =
     bind_io (download_market_data (ext_yf_download ext) (lookback_years cfg) symbol) (\<lambda>raw_df.
     bind_io (engineer_features (ext_preprocess_data ext) raw_df) (\<lambda>processed_df.
     bind_io (lift_io (split_dataframes (ext_data_split ext) (test_window_days cfg) processed_df))
       (\<lambda>(train_df, test_df).
     let env = build_env_kwargs (ext_INDICATORS ext) train_df in
     bind_io (train_agent ext cfg train_df env) (\<lambda>trained_model.
     bind_io (run_trading_loop ext trained_model test_df env)
       (\<lambda>(account_memory, actions_memory).
     bind_io (build_prediction_payload symbol raw_df actions_memory env)
       (\<lambda>prediction_payload.
     bind_io (build_backtest_payload symbol account_memory actions_memory test_df env)
       (\<lambda>backtest_payload.
     return_io (prediction_payload, backtest_payload))))))))"

text \<open>
  \<^verbatim>\<open>symbol.upper()\<close> on the ASCII letters; ticker symbols are ASCII, and other
  characters are left as they are.
\<close>

definition upper_char :: "char \<Rightarrow> char" where
  "upper_char c =
     (let n = (of_char c :: nat) in if 97 \<le> n \<and> n \<le> 122 then char_of (n - 32) else c)"

definition upper :: "string \<Rightarrow> string" where
  "upper s = map upper_char s"

text \<open>
  The service: the cache \<^verbatim>\<open>self._cache\<close>, a dictionary from symbols to entries, and the
  clock that \<^verbatim>\<open>datetime.utcnow()\<close> reads. A call runs alone (the lock is not modelled).
\<close>

record cache_entry =
  prediction :: prediction_payload
  backtest :: backtest_payload
  expires_at :: time

record service =
  clock :: time
  cache :: "string \<Rightarrow> cache_entry option"

text \<open>
  \<^verbatim>\<open>_get_or_train(symbol)\<close>. \<^verbatim>\<open>now\<close> is read once, before the lookup; an entry is
  returned when it is present and \<^verbatim>\<open>entry.expires_at > now\<close>. Otherwise the pipeline
  runs, and its result is stored with \<^verbatim>\<open>expires = now + timedelta(minutes=...)\<close>.
\<close>

definition get_or_train ::
  "'m externals \<Rightarrow> settings \<Rightarrow> string \<Rightarrow> service \<Rightarrow> (exn + cache_entry) \<times> service" where
  "get_or_train ext cfg symbol s =
     (let normalized_symbol = upper symbol;
          now = clock s;
          hit = (case cache s normalized_symbol of
                   None \<Rightarrow> None
                 | Some entry \<Rightarrow> if expires_at entry > now then Some entry else None)
      in case hit of
        Some entry \<Rightarrow> (Inr entry, s)
      | None \<Rightarrow>
          (case run_pipeline ext cfg normalized_symbol (clock s) of
             (Inl e, t') \<Rightarrow> (Inl e, s\<lparr>clock := t'\<rparr>)
           | (Inr (p, b), t') \<Rightarrow>
               let expires = now + timedelta_minutes (cache_ttl_minutes cfg);
                   new_entry = \<lparr>prediction = p, backtest = b, expires_at = expires\<rparr>
               in (Inr new_entry,
                   \<lparr>clock = t', cache = (cache s)(normalized_symbol \<mapsto> new_entry)\<rparr>)))"

definition get_prediction_payload ::
  "'m externals \<Rightarrow> settings \<Rightarrow> string \<Rightarrow> service \<Rightarrow> (exn + prediction_payload) \<times> service" where
  "get_prediction_payload ext cfg symbol s =
     (case get_or_train ext cfg symbol s of
        (Inl e, s') \<Rightarrow> (Inl e, s')
      | (Inr entry, s') \<Rightarrow> (Inr (prediction entry), s'))"

definition get_backtest_payload ::
  "'m externals \<Rightarrow> settings \<Rightarrow> string \<Rightarrow> service \<Rightarrow> (exn + backtest_payload) \<times> service" where
  "get_backtest_payload ext cfg symbol s =
     (case get_or_train ext cfg symbol s of
        (Inl e, s') \<Rightarrow> (Inl e, s')
      | (Inr entry, s') \<Rightarrow> (Inr (backtest entry), s'))"

section \<open>The prediction router (routers/predict.py)\<close>

text \<open>
  The external capabilities of the router: whether the model file exists, its path,
  \<^verbatim>\<open>PPO.load\<close>, the GET request, the feature engineer, \<^verbatim>\<open>INDICATORS\<close> and
  \<^verbatim>\<open>DRLAgent.DRL_prediction\<close> on a trading environment of the processed frame.
\<close>

record 'm router_externals =
  rx_model_exists :: bool
  rx_MODEL_PATH :: string
  rx_PPO_load :: "'m io"
  rx_http_get :: "string \<Rightarrow> time \<Rightarrow> time \<Rightarrow> http_response io"
  rx_preprocess_data :: "bar list \<Rightarrow> feature_row list io"
  rx_INDICATORS :: "string list"
  rx_DRL_prediction ::
    "'m \<Rightarrow> feature_row list \<Rightarrow> env_kwargs \<Rightarrow> (account_row list \<times> action_row list) io"

text \<open>
  \<^verbatim>\<open>_load_model()\<close>, with the state of \<^verbatim>\<open>_model_cache["ppo"]\<close> passed in and returned.
\<close>

definition load_model ::
  "'m router_externals \<Rightarrow> 'm option \<Rightarrow> time \<Rightarrow> (exn + 'm) \<times> 'm option \<times> time" where
  "load_model rx cached t =
     (if \<not> rx_model_exists rx then
        (Inl (FileNotFoundError
           (''Missing PPO model at '' @ rx_MODEL_PATH rx
            @ ''. Train one via `python3 train_model.py`.'')), cached, t)
      else case cached of
        Some model \<Rightarrow> (Inr model, cached, t)
      | None \<Rightarrow>
          (case rx_PPO_load rx t of
             (Inl e, t') \<Rightarrow> (Inl e, None, t')
           | (Inr model, t') \<Rightarrow> (Inr model, Some model, t')))"

text \<open>\<^verbatim>\<open>_build_env_kwargs(stock_dim)\<close> of the router.\<close>

definition router_build_env_kwargs :: "string list \<Rightarrow> nat \<Rightarrow> env_kwargs" where
  "router_build_env_kwargs INDICATORS stock_dim =
     (let state_space = 1 + 2 * stock_dim + length INDICATORS * stock_dim
      in \<lparr>kw_hmax = 100, kw_initial_amount = 100000,
          kw_buy_cost_pct = replicate stock_dim 0.001,
          kw_sell_cost_pct = replicate stock_dim 0.001,
          kw_state_space = state_space, kw_stock_dim = stock_dim,
          kw_tech_indicator_list = INDICATORS, kw_action_space = stock_dim,
          kw_reward_scaling = 0.0001, kw_num_stock_shares = replicate stock_dim 0\<rparr>)"

record prediction_response =
  pr_symbol :: string
  pr_latest_close :: real
  pr_predicted_next_close :: real
  pr_delta :: real
  pr_delta_pct :: real
  pr_generated_at :: time
  pr_price_history :: "price_point list"
  pr_prediction_point :: prediction_point
  pr_disclaimer :: string

text \<open>\<^verbatim>\<open>_run_prediction(symbol)\<close>, after the model is loaded.\<close>

definition predict_with ::
  "'m router_externals \<Rightarrow> 'm \<Rightarrow> string \<Rightarrow> prediction_response io" where
  "predict_with rx model symbol =
     bind_io (fetch_market_data (rx_http_get rx) symbol) (\<lambda>raw_df.
     bind_io (engineer_features (rx_preprocess_data rx) raw_df) (\<lambda>processed_df.
     let stock_dim = length (remdups (map f_tic processed_df));
         env = router_build_env_kwargs (rx_INDICATORS rx) stock_dim
     in bind_io (rx_DRL_prediction rx model processed_df env) (\<lambda>(account_memory, actions).
     bind_io (lift_io (iloc raw_df (- 1))) (\<lambda>latest_row.
     let latest_close = b_close latest_row in
     bind_io (lift_io
        (if actions \<noteq> [] then
           (case iloc actions (- 1) of
              Inl e \<Rightarrow> Inl e
            | Inr row \<Rightarrow> action_to_scalar (a_actions row))
         else Inr 0)) (\<lambda>last_action.
     bind_io (lift_io (estimate_price latest_close (Some last_action) (kw_hmax env)))
       (\<lambda>predicted_close.
     let delta = predicted_close - latest_close;
         delta_pct = (if latest_close \<noteq> 0 then (delta / latest_close) * 100 else 0);
         history = map (\<lambda>row. \<lparr>pp_date = to_datetime (b_date row), pp_value = b_close row\<rparr>)
                     (tail 240 raw_df);
         point = \<lparr>pt_date = to_datetime (b_date latest_row) + timedelta_days 1,
                  pt_predicted_close = predicted_close\<rparr>
     in bind_io utcnow (\<lambda>generated_at.
          return_io
            \<lparr>pr_symbol = upper symbol, pr_latest_close = latest_close,
             pr_predicted_next_close = predicted_close, pr_delta = delta,
             pr_delta_pct = delta_pct, pr_generated_at = generated_at,
             pr_price_history = history, pr_prediction_point = point,
             pr_disclaimer = DISCLAIMER_TEXT\<rparr>)))))))"

definition run_prediction ::
  "'m router_externals \<Rightarrow> string \<Rightarrow> 'm option \<Rightarrow> time
    \<Rightarrow> (exn + prediction_response) \<times> 'm option \<times> time" where
  "run_prediction rx symbol cached t =
     (case load_model rx cached t of
        (Inl e, cached', t') \<Rightarrow> (Inl e, cached', t')
      | (Inr model, cached', t') \<Rightarrow>
          (case predict_with rx model symbol t' of (r, t'') \<Rightarrow> (r, cached', t'')))"



text \<open>
  External capabilities for a complete run: the download takes 5 seconds, the split keeps
  the rows from \<open>start\<close> up to, not including, \<open>end\<close>, training returns a model at once, and
  the simulation returns, for every date of the test frame, an account value of 100000
  and the neutral action \<^verbatim>\<open>array([0])\<close>.
\<close>

definition example_data_split ::
  "feature_row list \<Rightarrow> time option \<Rightarrow> time option \<Rightarrow> feature_row list" where
  "example_data_split df start end =
     filter (\<lambda>row. case (f_date row, start, end) of
                     (Some d, Some a, Some b) \<Rightarrow> a \<le> d \<and> d < b
                   | _ \<Rightarrow> False) df"

definition example_externals :: "unit externals" where
  "example_externals =
     \<lparr>ext_yf_download = (\<lambda>symbol start end t. (Inr example_candles, t + 5000000)),
      ext_preprocess_data = example_preprocess,
      ext_data_split = example_data_split,
      ext_INDICATORS = [''macd''],
      ext_train_model = (\<lambda>train_df env timesteps. return_io ()),
      ext_DRL_prediction = (\<lambda>model test_df env.
         return_io
           (map (\<lambda>d. \<lparr>acc_date = d, account_value = 100000\<rparr>)
              (List.map_filter f_date test_df),
            map (\<lambda>d. \<lparr>a_date = d, a_actions = Sequence NdArray [0]\<rparr>)
              (List.map_filter f_date test_df)))\<rparr>"

definition failing_externals :: "unit externals" where
  "failing_externals =
     example_externals
       \<lparr>ext_yf_download := (\<lambda>symbol start end t.
          (Inl (RuntimeError ''connection reset''), t + 5000000))\<rparr>"

definition example_settings :: settings where
  "example_settings =
     \<lparr>lookback_years = 2, test_window_days = 60, training_timesteps = 10000,
      cache_ttl_minutes = 60\<rparr>"

definition example_entry :: cache_entry where
  "example_entry =
     \<lparr>prediction =
        \<lparr>p_symbol = ''AAPL'', p_latest_close = 1, p_predicted_next_close = 1,
         p_generated_at = 0, p_price_history = [\<lparr>pp_date = 0, pp_value = 1\<rparr>],
         p_prediction_point = \<lparr>pt_date = timedelta_days 1, pt_predicted_close = 1\<rparr>,
         p_disclaimer = DISCLAIMER_TEXT\<rparr>,
      backtest =
        \<lparr>bt_symbol = ''AAPL'', bt_generated_at = 0,
         bt_equity_curve = [\<lparr>e_date = 0, e_equity = 100000\<rparr>],
         bt_price_comparison = [],
         bt_metrics = \<lparr>m_final_equity = 100000, m_total_return_pct = 0,
           m_sharpe_ratio = 0, m_max_drawdown_pct = Finite 0\<rparr>,
         bt_disclaimer = DISCLAIMER_TEXT\<rparr>,
      expires_at = timedelta_minutes 60\<rparr>"

definition example_service :: service where
  "example_service = \<lparr>clock = 0, cache = (\<lambda>key. None)\<rparr>"

definition cached_service :: "time \<Rightarrow> service" where
  "cached_service now =
     \<lparr>clock = now, cache = (\<lambda>key. if key = ''AAPL'' then Some example_entry else None)\<rparr>"

text \<open>A router whose provider answers with 30 complete candles.\<close>

definition example_router_response :: http_response where
  "example_router_response =
     Response 200 (Json \<lparr>chart_error = None,
       chart_result = Some [\<lparr>r_timestamp = Some (map int [0..<30]),
         r_quote = Some [\<lparr>q_open = Some (replicate 30 (Some 1)),
           q_high = Some (replicate 30 (Some 1)), q_low = Some (replicate 30 (Some 1)),
           q_close = Some (replicate 30 (Some 1)),
           q_volume = Some (replicate 30 (Some 1))\<rparr>],
         r_adjclose = None\<rparr>]\<rparr>)"

definition example_router :: "unit router_externals" where
  "example_router =
     \<lparr>rx_model_exists = True, rx_MODEL_PATH = ''ppo_model.zip'',
      rx_PPO_load = return_io (),
      rx_http_get = (\<lambda>symbol start end. return_io example_router_response),
      rx_preprocess_data = example_preprocess,
      rx_INDICATORS = [''macd''],
      rx_DRL_prediction = (\<lambda>model df env. return_io ([], []))\<rparr>"

text \<open>
  The same capabilities with a provider that has only the first two candles, and a router
  whose provider answers with five timestamps and a close series of three.
\<close>

definition short_externals :: "unit externals" where
  "short_externals =
     example_externals
       \<lparr>ext_yf_download := (\<lambda>symbol start end. return_io (take 2 example_candles))\<rparr>"

definition short_router :: "unit router_externals" where
  "short_router = example_router \<lparr>rx_http_get := example_get\<rparr>"

section \<open>Array alignment\<close>

lemma length_align_length: "length (align_length v n) = n"
  by (cases v) auto

lemma align_length_take_pad:
  "align_length (Some xs) n = take n xs @ replicate (n - length xs) None"
  by auto

text \<open>An empty error object is not an error: the body is read as if it had none.\<close>

lemma empty_error_object_ignored:
  "download_price_history symbol start end
     (Response status (Json (c\<lparr>chart_error := Some EmptyObject\<rparr>)))
   = download_price_history symbol start end
     (Response status (Json (c\<lparr>chart_error := None\<rparr>)))"
  by (simp add: download_price_history_def truthy_error_def)

lemma align_length_per_spec: "aligned_per_spec n src (align_length src n)"
  by (cases src) (auto simp: aligned_per_spec_def)

lemma align_length_idem: "align_length (Some (align_length src n)) n = align_length src n"
  by (simp add: length_align_length)

text \<open>
  C5. Whenever the provider answers with a non-empty timestamp array of length \<open>N\<close>, the
  frame's open, high, low, close and volume columns are the provider's series aligned to
  \<open>N\<close> (truncated, padded with nulls at the tail, or unchanged); the adjusted close is
  the provider's adjclose series under the same rule, and the aligned close column when
  adjclose is absent. With 5 timestamps and a close series of length 3, the close column
  is the 3 values followed by 2 nulls.
\<close>

theorem download_price_history_alignment:
  assumes "start < end"
    and "status \<noteq> 429" and "\<not> (400 \<le> status \<and> status < 600)"
    and "chart_error c = None"
    and "chart_result c = Some (result # rest)"
    and "r_timestamp result = Some ts" and "ts \<noteq> []"
    and "q = first_or empty_quote (r_quote result)"
  shows "\<exists>f. download_price_history symbol start end (Response status (Json c)) = Inr f
     \<and> length (col_Date f) = length ts
     \<and> aligned_per_spec (length ts) (q_open q) (col_Open f)
     \<and> aligned_per_spec (length ts) (q_high q) (col_High f)
     \<and> aligned_per_spec (length ts) (q_low q) (col_Low f)
     \<and> aligned_per_spec (length ts) (q_close q) (col_Close f)
     \<and> aligned_per_spec (length ts) (q_volume q) (col_Volume f)
     \<and> (case first_or None (r_adjclose result) of
           Some a \<Rightarrow> aligned_per_spec (length ts) (Some a) (col_Adj_Close f)
         | None \<Rightarrow> col_Adj_Close f = col_Close f)
     \<and> (\<forall>xs. length ts = 5 \<and> q_close q = Some xs \<and> length xs = 3
           \<longrightarrow> col_Close f = xs @ [None, None])"
proof -
  let ?n = "length ts"
  let ?closes = "align_length (q_close q) ?n"
  let ?adj = "align_length (case first_or None (r_adjclose result) of
                 Some a \<Rightarrow> Some a | None \<Rightarrow> Some ?closes) ?n"
  let ?f = "\<lparr>col_Date = map to_datetime_s ts,
             col_Open = align_length (q_open q) ?n, col_High = align_length (q_high q) ?n,
             col_Low = align_length (q_low q) ?n, col_Close = ?closes,
             col_Adj_Close = ?adj, col_Volume = align_length (q_volume q) ?n\<rparr>"
  have run: "download_price_history symbol start end (Response status (Json c)) = Inr ?f"
    using assms(1-7) unfolding assms(8)
    by (simp add: download_price_history_def truthy_error_def Let_def)
  have adj: "case first_or None (r_adjclose result) of
           Some a \<Rightarrow> aligned_per_spec ?n (Some a) (col_Adj_Close ?f)
         | None \<Rightarrow> col_Adj_Close ?f = col_Close ?f"
  proof (cases "first_or None (r_adjclose result)")
    case None
    then show ?thesis by (simp add: length_align_length)
  next
    case (Some a)
    then show ?thesis using align_length_per_spec [of ?n "Some a"] by simp
  qed
  have ex: "\<forall>xs. ?n = 5 \<and> q_close q = Some xs \<and> length xs = 3
           \<longrightarrow> col_Close ?f = xs @ [None, None]"
    by (auto simp: numeral_eq_Suc)
  have cols: "length (col_Date ?f) = ?n"
    "aligned_per_spec ?n (q_open q) (col_Open ?f)"
    "aligned_per_spec ?n (q_high q) (col_High ?f)"
    "aligned_per_spec ?n (q_low q) (col_Low ?f)"
    "aligned_per_spec ?n (q_close q) (col_Close ?f)"
    "aligned_per_spec ?n (q_volume q) (col_Volume ?f)"
    by (simp_all add: align_length_per_spec)
  show ?thesis
    using run adj ex cols by (intro exI [of _ ?f] conjI)
qed

theorem download_price_history_alignment_witness:
  "\<exists>f. download_price_history ''AAPL'' 0 1
        (Response 200 (Json \<lparr>chart_error = None,
           chart_result = Some [\<lparr>r_timestamp = Some [1, 2, 3, 4, 5],
             r_quote = Some [\<lparr>q_open = None, q_high = None, q_low = None,
               q_close = Some [Some 10, Some 11, Some 12], q_volume = None\<rparr>],
             r_adjclose = None\<rparr>]\<rparr>)) = Inr f
     \<and> col_Close f = [Some 10, Some 11, Some 12, None, None]
     \<and> col_Adj_Close f = col_Close f
     \<and> col_Open f = [None, None, None, None, None]"
  using download_price_history_alignment
    [of 0 1 200
        "\<lparr>chart_error = None,
           chart_result = Some [\<lparr>r_timestamp = Some [1, 2, 3, 4, 5],
             r_quote = Some [\<lparr>q_open = None, q_high = None, q_low = None,
               q_close = Some [Some 10, Some 11, Some 12], q_volume = None\<rparr>],
             r_adjclose = None\<rparr>]\<rparr>"
        "\<lparr>r_timestamp = Some [1, 2, 3, 4, 5],
             r_quote = Some [\<lparr>q_open = None, q_high = None, q_low = None,
               q_close = Some [Some 10, Some 11, Some 12], q_volume = None\<rparr>],
             r_adjclose = None\<rparr>"
        "[]" "[1, 2, 3, 4, 5]"
        "\<lparr>q_open = None, q_high = None, q_low = None,
               q_close = Some [Some 10, Some 11, Some 12], q_volume = None\<rparr>"
        "''AAPL''"]
  by (auto simp: aligned_per_spec_def)

section \<open>Scalar extraction\<close>

text \<open>
  C4. \<^verbatim>\<open>_action_to_scalar\<close> returns a scalar itself, the first element of a non-empty
  list or tuple and of a one-element array, and 0 for an empty list or tuple; on a NumPy
  array of two elements it raises \<^verbatim>\<open>ValueError\<close> instead of returning the first element,
  since the array is tested for its truth value.
\<close>

theorem action_to_scalar_multi_element_array:
  "action_to_scalar (Sequence NdArray [1, 2]) = Inl (ValueError ambiguous_truth_value)
   \<and> action_to_scalar (Scalar x) = Inr x
   \<and> action_to_scalar (Sequence PyList (x # xs)) = Inr x
   \<and> action_to_scalar (Sequence PyTuple (x # xs)) = Inr x
   \<and> action_to_scalar (Sequence NdArray [x]) = Inr x
   \<and> action_to_scalar (Sequence PyList []) = Inr 0
   \<and> action_to_scalar (Sequence PyTuple []) = Inr 0"
  by simp

section \<open>The price estimate\<close>

lemma round_half_even_close: "\<bar>of_int (round_half_even y) - y\<bar> \<le> 1 / 2"
  unfolding round_half_even_def Let_def by (auto simp: abs_le_iff; linarith)

lemma py_round_4_close: "\<bar>py_round x 4 - x\<bar> \<le> 1 / 20000"
proof -
  have "\<bar>of_int (round_half_even (x * 10 ^ 4)) - x * 10 ^ 4\<bar> \<le> 1 / 2"
    by (rule round_half_even_close)
  then have "\<bar>of_int (round_half_even (x * 10 ^ 4)) / 10 ^ 4 - x\<bar> * 10 ^ 4 \<le> 1 / 2"
    by (simp add: abs_le_iff field_simps)
  then show ?thesis unfolding py_round_def by (simp add: field_simps)
qed

lemma tanh_adjustment_bound:
  fixes r :: real
  assumes "0 < r"
  shows "\<bar>r * (1 + np_tanh z * 0.01) / r - 1\<bar> \<le> 0.01"
proof -
  have bound: "\<bar>np_tanh z\<bar> \<le> 1"
    using tanh_real_lt_1 [of z] tanh_real_gt_neg1 [of z]
    by (simp add: np_tanh_def abs_le_iff)
  have eq: "r * (1 + np_tanh z * 0.01) / r - 1 = np_tanh z * 0.01"
    using assms by simp
  show ?thesis unfolding eq using bound by (simp add: abs_mult)
qed

lemma tanh_adjustment_abs:
  fixes r :: real
  assumes "0 < r"
  shows "\<bar>r * (1 + np_tanh z * 0.01) - r\<bar> \<le> 0.01 * r"
proof -
  have bound: "\<bar>np_tanh z\<bar> \<le> 1"
    using tanh_real_lt_1 [of z] tanh_real_gt_neg1 [of z]
    by (simp add: np_tanh_def abs_le_iff)
  have eq: "r * (1 + np_tanh z * 0.01) - r = r * (np_tanh z * 0.01)"
    by (simp add: algebra_simps)
  have "\<bar>r * (np_tanh z * 0.01)\<bar> = r * (\<bar>np_tanh z\<bar> * 0.01)"
    using assms by (simp add: abs_mult)
  also have "\<dots> \<le> r * (1 * 0.01)"
    using assms bound by (intro mult_left_mono mult_right_mono) simp_all
  finally show ?thesis unfolding eq by simp
qed

text \<open>
  C1, as stated: the returned estimate is always within 1 % of the reference close. It
  fails for a reference close of 0.00004 and a neutral action, where the estimate rounds
  to 0.
\<close>

theorem estimate_price_one_percent_counterexample:
  "(0 :: real) < 4 / 100000 \<and> (0 :: int) < 100
   \<and> estimate_price_from_action (4 / 100000) (Some 0) 100 = Inr 0
   \<and> estimate_price (4 / 100000) (Some 0) 100 = Inr 0
   \<and> \<not> \<bar>0 / (4 / 100000) - 1\<bar> \<le> (0.01 :: real)"
  by (simp add: estimate_price_from_action_def estimate_price_def py_round_def
      round_half_even_def np_tanh_def Let_def)

text \<open>
  C1, amended. For a positive reference close, a positive \<open>hmax\<close> and a non-null action,
  both estimators return the rounding to 4 decimals of a value \<open>x\<close> that is within 1 % of
  the reference close; the returned value is within 0.00005 of \<open>x\<close>, hence within
  \<open>0.01 * reference_close + 0.00005\<close> of the reference close.
\<close>

theorem estimate_price_bound:
  assumes "0 < reference_close" and "0 < hmax"
  shows "\<exists>x p. estimate_price_from_action reference_close (Some a) hmax = Inr p
     \<and> estimate_price reference_close (Some a) hmax = Inr p
     \<and> p = py_round x 4
     \<and> \<bar>x / reference_close - 1\<bar> \<le> 0.01
     \<and> \<bar>p - x\<bar> \<le> 0.00005
     \<and> \<bar>p - reference_close\<bar> \<le> 0.01 * reference_close + 0.00005"
proof -
  let ?x = "reference_close * (1 + np_tanh (a / of_int hmax) * 0.01)"
  let ?p = "py_round ?x 4"
  have run: "estimate_price_from_action reference_close (Some a) hmax = Inr ?p"
    "estimate_price reference_close (Some a) hmax = Inr ?p"
    using assms(2) by (simp_all add: estimate_price_from_action_def estimate_price_def)
  have rel: "\<bar>?x / reference_close - 1\<bar> \<le> 0.01"
    using assms(1) by (rule tanh_adjustment_bound)
  have rnd: "\<bar>?p - ?x\<bar> \<le> 0.00005"
    using py_round_4_close [of ?x] by simp
  have "\<bar>?x - reference_close\<bar> \<le> 0.01 * reference_close"
    using assms(1) by (rule tanh_adjustment_abs)
  then have near: "\<bar>?x - reference_close\<bar> \<le> reference_close / 100"
    by simp
  have "\<bar>?p - ?x\<bar> \<le> 1 / 20000"
    by (rule py_round_4_close)
  with near have "\<bar>?p - reference_close\<bar> \<le> reference_close / 100 + 1 / 20000"
    by linarith
  then have total: "\<bar>?p - reference_close\<bar> \<le> 0.01 * reference_close + 0.00005"
    by simp
  from run rel rnd total show ?thesis by blast
qed

theorem estimate_price_bound_witness:
  "\<exists>p. estimate_price_from_action 100 (Some 250) 100 = Inr p
     \<and> estimate_price 100 (Some 250) 100 = Inr p
     \<and> \<bar>p - 100\<bar> \<le> 1.00005"
  using estimate_price_bound [of 100 100 250] by auto

section \<open>The row-count check and the cleaned dataset\<close>

lemma dropna_complete: "\<forall>row \<in> set (dropna df). no_nulls row"
  by (simp add: dropna_def)

lemma engineer_features_result:
  assumes "engineer_features preprocess_data raw_df t = (Inr processed, t')"
  shows "\<exists>frame. preprocess_data raw_df t = (Inr frame, t') \<and> processed = dropna (ffill frame)"
  using assms
  by (auto simp: engineer_features_def bind_io_def return_io_def split: prod.splits sum.splits)

lemma short_frame:
  "(sort_key f xs = [] \<or> length xs < n) = (length xs < n)" if "0 < n"
  using that length_sort [of f xs] by (cases xs) auto

lemma download_market_data_run:
  assumes "yf_download symbol (t - timedelta_days (365 * years)) t t = (Inr data, t1)"
  shows "download_market_data yf_download years symbol t =
     (if data = [] then (Inl (FinRLException (no_data_message symbol)), t1)
      else if length (dropna_bars symbol data) < 100 then
        (Inl (FinRLException (insufficient_message symbol)), t1)
      else (Inr (sort_key b_date (dropna_bars symbol data)), t1))"
  using assms
  by (simp add: download_market_data_def bind_io_def utcnow_def raise_io_def return_io_def
      Let_def short_frame)

lemma fetch_market_data_run:
  assumes "http_get symbol (u - timedelta_days LOOKBACK_DAYS) u u = (Inr response, u1)"
    and "download_price_history symbol (u - timedelta_days LOOKBACK_DAYS) u response = Inr frame"
  shows "fetch_market_data http_get symbol u =
     (if col_Date frame = [] then (Inl (ValueError (router_no_data_message symbol)), u1)
      else if length (dropna_bars symbol (frame_rows frame)) < 30 then
        (Inl (ValueError (router_insufficient_message symbol)), u1)
      else (Inr (sort_key b_date (dropna_bars symbol (frame_rows frame))), u1))"
  using assms
  by (simp add: fetch_market_data_def bind_io_def utcnow_def raise_io_def return_io_def
      Let_def short_frame)

lemma bind_io_InlE:
  assumes "bind_io m f t = (Inl e, t')"
  obtains "m t = (Inl e, t')" | x t1 where "m t = (Inr x, t1)" and "f x t1 = (Inl e, t')"
  using assms by (auto simp: bind_io_def split: prod.splits sum.splits)

lemma iloc_error: "iloc rows i = Inl e \<Longrightarrow> e = IndexError"
  by (auto simp: iloc_def Let_def split: if_splits)

lemma action_to_scalar_error:
  assumes "action_to_scalar v = Inl e"
  shows "e = ValueError ambiguous_truth_value \<or> e = IndexError"
proof (cases v)
  case (Scalar x)
  with assms show ?thesis by simp
next
  case (Sequence kind xs)
  with assms show ?thesis
    by (auto split: sum.splits if_splits elim!: truth_value.elims item0.elims)
qed

lemma extract_action_error:
  assumes "extract_action actions position = Inl e"
  shows "e = ValueError ambiguous_truth_value \<or> e = IndexError"
  using assms
  by (auto simp: extract_action_def split: if_splits sum.splits
      dest: iloc_error action_to_scalar_error)

lemma estimate_price_from_action_error:
  "estimate_price_from_action close action h = Inl e \<Longrightarrow> e = ZeroDivisionError"
  by (auto simp: estimate_price_from_action_def Let_def split: option.splits if_splits)

lemma estimate_price_error:
  "estimate_price close action h = Inl e \<Longrightarrow> e = ZeroDivisionError"
  by (auto simp: estimate_price_def Let_def split: option.splits if_splits)

lemma calculate_metrics_error:
  "calculate_metrics account_memory = Inl e \<Longrightarrow> e = IndexError \<or> e = ZeroDivisionError"
  by (auto simp: calculate_metrics_def Let_def split: sum.splits if_splits dest: iloc_error)

lemma signals_error:
  "signals rows h = Inl e \<Longrightarrow> e = ValueError ambiguous_truth_value \<or> e = IndexError"
  by (induction rows) (auto split: sum.splits dest: action_to_scalar_error)

lemma build_price_comparison_error:
  "build_price_comparison actions test_df h = Inl e
    \<Longrightarrow> e = ValueError ambiguous_truth_value \<or> e = IndexError"
  by (auto simp: build_price_comparison_def Let_def split: if_splits sum.splits
      dest: signals_error)

lemma lift_io_Inl: "lift_io r t = (Inl e, t') \<Longrightarrow> r = Inl e"
  by (simp add: lift_io_def)

text \<open>The exceptions that the payload builders raise themselves.\<close>

lemma build_prediction_payload_error:
  assumes "build_prediction_payload symbol raw_df actions env t = (Inl e, t')"
  shows "e = IndexError \<or> e = ZeroDivisionError \<or> e = ValueError ambiguous_truth_value"
  using assms unfolding build_prediction_payload_def Let_def
  by (auto elim!: bind_io_InlE simp: utcnow_def return_io_def
      dest!: lift_io_Inl dest: iloc_error extract_action_error estimate_price_from_action_error)

lemma build_backtest_payload_error:
  assumes "build_backtest_payload symbol account_memory actions test_df env t = (Inl e, t')"
  shows "e = IndexError \<or> e = ZeroDivisionError \<or> e = ValueError ambiguous_truth_value"
  using assms unfolding build_backtest_payload_def Let_def
  by (auto elim!: bind_io_InlE simp: utcnow_def return_io_def
      dest!: lift_io_Inl dest: calculate_metrics_error build_price_comparison_error)

lemma split_dataframes_error:
  assumes "split_dataframes data_split window df = Inl e"
  shows "e = FinRLException not_enough_rows_message
     \<or> e = FinRLException ''Empty training or testing dataset produced.''"
  using assms by (auto simp: split_dataframes_def Let_def split: if_splits)

lemma engineer_features_cases:
  "engineer_features preprocess_data raw_df t =
     (case preprocess_data raw_df t of
        (Inl e, t') \<Rightarrow> (Inl e, t')
      | (Inr frame, t') \<Rightarrow> (Inr (dropna (ffill frame)), t'))"
  by (simp add: engineer_features_def bind_io_def return_io_def split: prod.splits sum.splits)

lemma messages_differ:
  "not_enough_rows_message \<noteq> insufficient_message symbol"
  "''Empty training or testing dataset produced.'' \<noteq> insufficient_message symbol"
  "no_data_message symbol \<noteq> insufficient_message symbol"
  "router_no_data_message symbol \<noteq> router_insufficient_message symbol"
  "ambiguous_truth_value \<noteq> router_insufficient_message symbol"
  by (simp_all add: not_enough_rows_message_def insufficient_message_def no_data_message_def
      router_no_data_message_def router_insufficient_message_def ambiguous_truth_value_def)

text \<open>
  When the training pipeline raises the row-count error and no external capability
  raised it, the download stage did.
\<close>

lemma run_pipeline_row_count_error:
  fixes ext :: "'m externals"
  assumes run: "run_pipeline ext cfg symbol t = (Inl (FinRLException (insufficient_message symbol)), t')"
    and pp: "\<And>raw_df v. fst (ext_preprocess_data ext raw_df v)
        \<noteq> Inl (FinRLException (insufficient_message symbol))"
    and tr: "\<And>df env n v. fst (ext_train_model ext df env n v)
        \<noteq> Inl (FinRLException (insufficient_message symbol))"
    and sim: "\<And>model df env v. fst (ext_DRL_prediction ext model df env v)
        \<noteq> Inl (FinRLException (insufficient_message symbol))"
  shows "download_market_data (ext_yf_download ext) (lookback_years cfg) symbol t
     = (Inl (FinRLException (insufficient_message symbol)), t')"
proof -
  let ?E = "FinRLException (insufficient_message symbol)"
  have eng: "engineer_features (ext_preprocess_data ext) raw_df v \<noteq> (Inl ?E, v')" for raw_df v v'
    using pp [of raw_df v]
    by (auto simp: engineer_features_cases split: prod.splits sum.splits)
  have split: "split_dataframes (ext_data_split ext) (test_window_days cfg) df \<noteq> Inl ?E" for df
    using split_dataframes_error [of "ext_data_split ext" "test_window_days cfg" df ?E]
      messages_differ(1,2) [of symbol]
    by auto
  have train: "train_agent ext cfg df env v \<noteq> (Inl ?E, v')" for df env v v'
    using tr [of df env "training_timesteps cfg" v] by (auto simp: train_agent_def)
  have loop: "run_trading_loop ext model df env v \<noteq> (Inl ?E, v')" for model df env v v'
    using sim [of model df env v] by (auto simp: run_trading_loop_def)
  have pred: "build_prediction_payload symbol raw_df actions env v \<noteq> (Inl ?E, v')"
    for raw_df actions env v v'
    using build_prediction_payload_error [of symbol raw_df actions env v ?E v'] by auto
  have bktest: "build_backtest_payload symbol account_memory actions df env v \<noteq> (Inl ?E, v')"
    for account_memory actions df env v v'
    using build_backtest_payload_error [of symbol account_memory actions df env v ?E v'] by auto
  from run show ?thesis
    unfolding run_pipeline_def Let_def
    by (auto elim!: bind_io_InlE simp: return_io_def eng train loop pred bktest split
        dest!: lift_io_Inl split: prod.splits)
qed

lemma predict_with_row_count_error:
  fixes rx :: "'n router_externals"
  assumes run: "predict_with rx model symbol t
      = (Inl (ValueError (router_insufficient_message symbol)), t')"
    and pp: "\<And>raw_df v. fst (rx_preprocess_data rx raw_df v)
        \<noteq> Inl (ValueError (router_insufficient_message symbol))"
    and sim: "\<And>m df env v. fst (rx_DRL_prediction rx m df env v)
        \<noteq> Inl (ValueError (router_insufficient_message symbol))"
  shows "fetch_market_data (rx_http_get rx) symbol t
     = (Inl (ValueError (router_insufficient_message symbol)), t')"
proof -
  let ?E = "ValueError (router_insufficient_message symbol)"
  have eng: "engineer_features (rx_preprocess_data rx) raw_df v \<noteq> (Inl ?E, v')" for raw_df v v'
    using pp [of raw_df v]
    by (auto simp: engineer_features_cases split: prod.splits sum.splits)
  have loop: "rx_DRL_prediction rx m df env v \<noteq> (Inl ?E, v')" for m df env v v'
    using sim [of m df env v] by auto
  have act: "action_to_scalar a \<noteq> Inl ?E" for a
    using action_to_scalar_error [of a ?E] messages_differ(5) [of symbol] by auto
  have idx: "iloc rows i \<noteq> Inl ?E" for rows :: "'a list" and i
    using iloc_error [of rows i ?E] by auto
  have est: "estimate_price close action h \<noteq> Inl ?E" for close action h
    using estimate_price_error [of close action h ?E] by auto
  from run show ?thesis
    unfolding predict_with_def Let_def
    by (auto elim!: bind_io_InlE simp: return_io_def utcnow_def eng loop act idx est
        dest!: lift_io_Inl split: prod.splits if_splits sum.splits)
qed

text \<open>
  C7, as stated: the insufficient-data error is raised whenever fewer than 100 rows remain
  after null-dropping, indicator computation and forward fill. With 100 complete candles
  and an indicator that has no value in the first row, 99 rows remain after
  preprocessing and no error is raised: the rows are counted before the indicators are
  computed.
\<close>

theorem insufficient_after_preprocessing_counterexample:
  "case download_market_data example_download 2 ''AAPL'' 0 of
     (Inr raw_df, t) \<Rightarrow>
       (case engineer_features example_preprocess raw_df t of
          (Inr processed, t') \<Rightarrow> length raw_df = 100 \<and> length processed = 99
        | (Inl e, t') \<Rightarrow> False)
   | (Inl e, t) \<Rightarrow> False"
  by code_simp

text \<open>
  C7, amended. Let the provider return a non-empty frame and let no external capability
  (feature engineer, trainer, simulator) itself raise the row-count error
  \<^verbatim>\<open>Insufficient historical data for <symbol>\<close>. Then \<^verbatim>\<open>_run_pipeline\<close> fails with that
  error exactly when fewer than 100 rows remain after the raw bars with a null value
  are dropped, and \<^verbatim>\<open>_run_prediction\<close>, once the model is loaded, exactly when fewer than
  30 remain. The rows are counted before the indicators are computed and forward-filled
  and not again afterwards: \<^verbatim>\<open>_engineer_features\<close> raises nothing of its own and returns
  whatever rows \<^verbatim>\<open>ffill().dropna()\<close> leaves. The error of the split for a window that is too
  long is a different one. Whenever \<^verbatim>\<open>_engineer_features\<close> returns, no row of its result
  has a null.
\<close>

theorem insufficient_data_check:
  fixes ext :: "'m externals" and rx :: "'n router_externals"
  assumes dl: "ext_yf_download ext symbol (t - timedelta_days (365 * lookback_years cfg)) t t
      = (Inr data, t1)"
    and data: "data \<noteq> []"
    and pp: "\<And>raw_df v. fst (ext_preprocess_data ext raw_df v)
        \<noteq> Inl (FinRLException (insufficient_message symbol))"
    and tr: "\<And>df env n v. fst (ext_train_model ext df env n v)
        \<noteq> Inl (FinRLException (insufficient_message symbol))"
    and sim: "\<And>m df env v. fst (ext_DRL_prediction ext m df env v)
        \<noteq> Inl (FinRLException (insufficient_message symbol))"
    and load: "load_model rx cached u = (Inr model, cached', u0)"
    and get: "rx_http_get rx router_symbol (u0 - timedelta_days LOOKBACK_DAYS) u0 u0
      = (Inr response, u1)"
    and frame: "download_price_history router_symbol (u0 - timedelta_days LOOKBACK_DAYS) u0
      response = Inr frame"
    and dates: "col_Date frame \<noteq> []"
    and rpp: "\<And>raw_df v. fst (rx_preprocess_data rx raw_df v)
        \<noteq> Inl (ValueError (router_insufficient_message router_symbol))"
    and rsim: "\<And>m df env v. fst (rx_DRL_prediction rx m df env v)
        \<noteq> Inl (ValueError (router_insufficient_message router_symbol))"
  shows "(fst (run_pipeline ext cfg symbol t) = Inl (FinRLException (insufficient_message symbol))
        \<longleftrightarrow> length (dropna_bars symbol data) < 100)
   \<and> (fst (run_prediction rx router_symbol cached u)
          = Inl (ValueError (router_insufficient_message router_symbol))
        \<longleftrightarrow> length (dropna_bars router_symbol (frame_rows frame)) < 30)
   \<and> (\<forall>preprocess_data raw_df v.
        engineer_features preprocess_data raw_df v =
          (case preprocess_data raw_df v of
             (Inl e, v') \<Rightarrow> (Inl e, v')
           | (Inr processed, v') \<Rightarrow> (Inr (dropna (ffill processed)), v')))
   \<and> (\<forall>preprocess_data raw_df v processed v'.
        engineer_features preprocess_data raw_df v = (Inr processed, v')
        \<longrightarrow> list_all no_nulls processed)
   \<and> FinRLException not_enough_rows_message \<noteq> FinRLException (insufficient_message symbol)"
proof (intro conjI allI impI)
  let ?E = "FinRLException (insufficient_message symbol)"
  have stage: "download_market_data (ext_yf_download ext) (lookback_years cfg) symbol t =
     (if length (dropna_bars symbol data) < 100 then (Inl ?E, t1)
      else (Inr (sort_key b_date (dropna_bars symbol data)), t1))"
    using download_market_data_run [of "ext_yf_download ext" symbol t "lookback_years cfg" data t1]
      dl data
    by simp
  show "fst (run_pipeline ext cfg symbol t) = Inl ?E \<longleftrightarrow> length (dropna_bars symbol data) < 100"
  proof
    assume "fst (run_pipeline ext cfg symbol t) = Inl ?E"
    then obtain t' where "run_pipeline ext cfg symbol t = (Inl ?E, t')"
      by (cases "run_pipeline ext cfg symbol t") simp
    then have "download_market_data (ext_yf_download ext) (lookback_years cfg) symbol t
        = (Inl ?E, t')"
      using pp tr sim by (rule run_pipeline_row_count_error)
    with stage show "length (dropna_bars symbol data) < 100"
      by (simp split: if_splits)
  next
    assume "length (dropna_bars symbol data) < 100"
    with stage show "fst (run_pipeline ext cfg symbol t) = Inl ?E"
      by (simp add: run_pipeline_def bind_io_def)
  qed
next
  let ?E = "ValueError (router_insufficient_message router_symbol)"
  have stage: "fetch_market_data (rx_http_get rx) router_symbol u0 =
     (if length (dropna_bars router_symbol (frame_rows frame)) < 30 then (Inl ?E, u1)
      else (Inr (sort_key b_date (dropna_bars router_symbol (frame_rows frame))), u1))"
    using fetch_market_data_run [of "rx_http_get rx" router_symbol u0 response u1 frame]
      get frame dates
    by simp
  have path: "fst (run_prediction rx router_symbol cached u)
      = fst (predict_with rx model router_symbol u0)"
    using load by (simp add: run_prediction_def split: prod.splits)
  show "fst (run_prediction rx router_symbol cached u) = Inl ?E
      \<longleftrightarrow> length (dropna_bars router_symbol (frame_rows frame)) < 30"
  proof
    assume "fst (run_prediction rx router_symbol cached u) = Inl ?E"
    with path obtain t' where "predict_with rx model router_symbol u0 = (Inl ?E, t')"
      by (cases "predict_with rx model router_symbol u0") simp
    then have "fetch_market_data (rx_http_get rx) router_symbol u0 = (Inl ?E, t')"
      using rpp rsim by (rule predict_with_row_count_error)
    with stage show "length (dropna_bars router_symbol (frame_rows frame)) < 30"
      by (simp split: if_splits)
  next
    assume "length (dropna_bars router_symbol (frame_rows frame)) < 30"
    with stage path show "fst (run_prediction rx router_symbol cached u) = Inl ?E"
      by (simp add: predict_with_def bind_io_def)
  qed
next
  fix preprocess_data :: "bar list \<Rightarrow> feature_row list io" and raw_df v
  show "engineer_features preprocess_data raw_df v =
          (case preprocess_data raw_df v of
             (Inl e, v') \<Rightarrow> (Inl e, v')
           | (Inr processed, v') \<Rightarrow> (Inr (dropna (ffill processed)), v'))"
    by (rule engineer_features_cases)
next
  fix preprocess_data :: "bar list \<Rightarrow> feature_row list io" and raw_df v processed v'
  assume "engineer_features preprocess_data raw_df v = (Inr processed, v')"
  then show "list_all no_nulls processed"
    using engineer_features_result dropna_complete unfolding list_all_iff by blast
next
  show "FinRLException not_enough_rows_message \<noteq> FinRLException (insufficient_message symbol)"
    using messages_differ(1) [of symbol] by simp
qed

theorem insufficient_data_check_witness:
  "fst (run_pipeline short_externals example_settings ''AAPL'' 0)
      = Inl (FinRLException (insufficient_message ''AAPL''))
   \<and> length (dropna_bars ''AAPL'' (take 2 example_candles)) < 100
   \<and> fst (run_pipeline example_externals example_settings ''AAPL'' 0)
      \<noteq> Inl (FinRLException (insufficient_message ''AAPL''))
   \<and> length (dropna_bars ''AAPL'' example_candles) = 100
   \<and> fst (run_prediction short_router ''AAPL'' None 0)
      = Inl (ValueError (router_insufficient_message ''AAPL''))
   \<and> list_all no_nulls (dropna (ffill
         [example_row None \<lparr>b_date = 0, b_tic = ''AAPL'', b_open = 1, b_high = 1,
            b_low = 1, b_close = 1, b_adj_close = 1, b_volume = 1\<rparr>,
          example_row (Some 0) \<lparr>b_date = 1, b_tic = ''AAPL'', b_open = 1, b_high = 1,
            b_low = 1, b_close = 1, b_adj_close = 1, b_volume = 1\<rparr>]))"
proof -
  let ?b0 = "\<lparr>b_date = 0, b_tic = ''AAPL'', b_open = 1, b_high = 1,
            b_low = 1, b_close = 1, b_adj_close = 1, b_volume = 1\<rparr>"
  let ?b1 = "\<lparr>b_date = 1, b_tic = ''AAPL'', b_open = 1, b_high = 1,
            b_low = 1, b_close = 1, b_adj_close = 1, b_volume = 1\<rparr>"
  let ?start = "0 - timedelta_days LOOKBACK_DAYS"
  let ?frame = "\<lparr>col_Date = map to_datetime_s [1, 2, 3, 4, 5],
      col_Open = [Some 1, Some 1, Some 1, None, None],
      col_High = [Some 1, Some 1, Some 1, None, None],
      col_Low = [Some 1, Some 1, Some 1, None, None],
      col_Close = [Some 10, Some 11, Some 12, None, None],
      col_Adj_Close = [Some 10, Some 11, Some 12, None, None],
      col_Volume = [Some 1, Some 1, Some 1, None, None]\<rparr>"
  have dl: "ext_yf_download short_externals ''AAPL''
      (0 - timedelta_days (365 * lookback_years example_settings)) 0 0
      = (Inr (take 2 example_candles), 0)"
    by (simp add: short_externals_def example_externals_def return_io_def)
  have data: "take 2 example_candles \<noteq> []"
    by code_simp
  have short: "length (dropna_bars ''AAPL'' (take 2 example_candles)) < 100"
    by code_simp
  have pp: "fst (ext_preprocess_data short_externals raw_df v)
      \<noteq> Inl (FinRLException (insufficient_message ''AAPL''))" for raw_df v
    by (simp add: short_externals_def example_externals_def example_preprocess_def return_io_def)
  have tr: "fst (ext_train_model short_externals df env n v)
      \<noteq> Inl (FinRLException (insufficient_message ''AAPL''))" for df env n v
    by (simp add: short_externals_def example_externals_def return_io_def)
  have sim: "fst (ext_DRL_prediction short_externals m df env v)
      \<noteq> Inl (FinRLException (insufficient_message ''AAPL''))" for m df env v
    by (simp add: short_externals_def example_externals_def return_io_def)
  have load: "load_model short_router None 0 = (Inr (), Some (), 0)"
    by (simp add: load_model_def short_router_def example_router_def return_io_def)
  have get: "rx_http_get short_router ''AAPL'' ?start 0 0 = (Inr example_response, 0)"
    by (simp add: short_router_def example_router_def example_get_def return_io_def)
  have frame: "download_price_history ''AAPL'' ?start 0 example_response = Inr ?frame"
    by code_simp
  have dates: "col_Date ?frame \<noteq> []"
    by simp
  have rows: "length (dropna_bars ''AAPL'' (frame_rows ?frame)) < 30"
    by code_simp
  have rpp: "fst (rx_preprocess_data short_router raw_df v)
      \<noteq> Inl (ValueError (router_insufficient_message ''AAPL''))" for raw_df v
    by (simp add: short_router_def example_router_def example_preprocess_def return_io_def)
  have rsim: "fst (rx_DRL_prediction short_router m df env v)
      \<noteq> Inl (ValueError (router_insufficient_message ''AAPL''))" for m df env v
    by (simp add: short_router_def example_router_def return_io_def)
  have eng: "engineer_features example_preprocess [?b0, ?b1] 0
      = (Inr (dropna (ffill [example_row None ?b0, example_row (Some 0) ?b1])), 0)"
    by (simp add: engineer_features_def example_preprocess_def bind_io_def return_io_def)
  have dl': "ext_yf_download example_externals ''AAPL''
      (0 - timedelta_days (365 * lookback_years example_settings)) 0 0
      = (Inr example_candles, 5000000)"
    by (simp add: example_externals_def)
  have data': "example_candles \<noteq> []"
    by (simp add: example_candles_def)
  have full: "length (dropna_bars ''AAPL'' example_candles) = 100"
    by code_simp
  have pp': "fst (ext_preprocess_data example_externals raw_df v)
      \<noteq> Inl (FinRLException (insufficient_message ''AAPL''))" for raw_df v
    by (simp add: example_externals_def example_preprocess_def return_io_def)
  have tr': "fst (ext_train_model example_externals df env n v)
      \<noteq> Inl (FinRLException (insufficient_message ''AAPL''))" for df env n v
    by (simp add: example_externals_def return_io_def)
  have sim': "fst (ext_DRL_prediction example_externals m df env v)
      \<noteq> Inl (FinRLException (insufficient_message ''AAPL''))" for m df env v
    by (simp add: example_externals_def return_io_def)
  note enough = insufficient_data_check [of example_externals "''AAPL''" 0 example_settings
      example_candles 5000000 short_router None 0 "()" "Some ()" 0 "''AAPL''"
      example_response 0 ?frame,
      OF dl' data' pp' tr' sim' load get frame dates rpp rsim]
  from enough full have no_error: "fst (run_pipeline example_externals example_settings ''AAPL'' 0)
      \<noteq> Inl (FinRLException (insufficient_message ''AAPL''))"
    by simp
  note check = insufficient_data_check [of short_externals "''AAPL''" 0 example_settings
      "take 2 example_candles" 0 short_router None 0 "()" "Some ()" 0 "''AAPL''"
      example_response 0 ?frame,
      OF dl data pp tr sim load get frame dates rpp rsim]
  from check short rows eng no_error full show ?thesis
    by blast
qed

section \<open>The split\<close>

lemma date_max_is_max:
  assumes "date_max df = Some m"
  shows "m \<in> set (List.map_filter f_date df) \<and> (\<forall>d \<in> set (List.map_filter f_date df). d \<le> m)"
proof (cases "List.map_filter f_date df")
  case Nil
  with assms show ?thesis by (simp add: date_max_def)
next
  case (Cons d ds)
  have fin: "finite (set (d # ds))" and ne: "set (d # ds) \<noteq> {}"
    by simp_all
  from Cons assms have m: "m = Max (set (d # ds))"
    using Max.set_eq_fold [of d ds] by (simp add: date_max_def)
  show ?thesis
    unfolding Cons m using Max_in [OF fin ne] Max_ge [OF fin] by blast
qed

lemma date_min_is_min:
  assumes "date_min df = Some m"
  shows "m \<in> set (List.map_filter f_date df) \<and> (\<forall>d \<in> set (List.map_filter f_date df). m \<le> d)"
proof (cases "List.map_filter f_date df")
  case Nil
  with assms show ?thesis by (simp add: date_min_def)
next
  case (Cons d ds)
  have fin: "finite (set (d # ds))" and ne: "set (d # ds) \<noteq> {}"
    by simp_all
  from Cons assms have m: "m = Min (set (d # ds))"
    using Min.set_eq_fold [of d ds] by (simp add: date_min_def)
  show ?thesis
    unfolding Cons m using Min_in [OF fin ne] Min_le [OF fin] by blast
qed

text \<open>
  C8. For a dataset with dates, \<^verbatim>\<open>_split_dataframes\<close> raises the not-enough-rows error
  whenever the latest date minus the test window is not after the earliest date, whatever
  \<^verbatim>\<open>data_split\<close> would return; in particular for a dataset that spans at most 365 days
  and a test window of 400 days.
\<close>

theorem split_dataframes_window_too_long:
  assumes "date_max df = Some max_date" and "date_min df = Some min_date"
  shows "(max_date - timedelta_days window \<le> min_date \<longrightarrow>
        split_dataframes data_split window df = Inl (FinRLException not_enough_rows_message))
   \<and> (max_date - min_date \<le> timedelta_days 365 \<longrightarrow>
        split_dataframes data_split 400 df = Inl (FinRLException not_enough_rows_message))"
  using assms by (simp add: split_dataframes_def le_ts_def timedelta_days_def)

theorem split_dataframes_window_too_long_witness:
  "split_dataframes (\<lambda>df start end. df) 400
     [\<lparr>f_date = Some 0, f_tic = Some ''AAPL'', f_close = Some 1, f_other = []\<rparr>,
      \<lparr>f_date = Some (timedelta_days 365), f_tic = Some ''AAPL'', f_close = Some 2,
       f_other = []\<rparr>]
   = Inl (FinRLException not_enough_rows_message)"
proof -
  let ?df = "[\<lparr>f_date = Some 0, f_tic = Some ''AAPL'', f_close = Some 1, f_other = []\<rparr>,
      \<lparr>f_date = Some (timedelta_days 365), f_tic = Some ''AAPL'', f_close = Some 2,
       f_other = []\<rparr>]"
  have mx: "date_max ?df = Some (timedelta_days 365)"
    by (simp add: date_max_def map_filter_def timedelta_days_def)
  have mn: "date_min ?df = Some 0"
    by (simp add: date_min_def map_filter_def timedelta_days_def)
  show ?thesis
    using split_dataframes_window_too_long [OF mx mn, of 400 "\<lambda>df start end. df"]
    by (simp add: timedelta_days_def)
qed

section \<open>Final equity and the equity curve\<close>

lemma iloc_last: "iloc rows (- 1) = (if rows = [] then Inl IndexError else Inr (last rows))"
  by (cases "rows = []") (simp_all add: iloc_def last_conv_nth nat_diff_distrib')

lemma calculate_metrics_final_equity:
  assumes "calculate_metrics account_memory = Inr m"
  shows "account_memory \<noteq> []
     \<and> m_final_equity m = py_round (account_value (last account_memory)) 2"
proof -
  let ?series = "map account_value account_memory"
  from assms have ne: "account_memory \<noteq> []"
    by (auto simp: calculate_metrics_def iloc_last)
  then have last: "iloc ?series (- 1) = Inr (account_value (last account_memory))"
    by (simp add: iloc_last last_map)
  from assms last have "m_final_equity m = py_round (account_value (last account_memory)) 2"
    by (auto simp: calculate_metrics_def Let_def split: sum.splits if_splits)
  with ne show ?thesis by simp
qed

lemma build_backtest_payload_result:
  assumes "build_backtest_payload symbol account_memory actions test_df env t = (Inr p, t')"
  shows "calculate_metrics account_memory = Inr (bt_metrics p)
     \<and> bt_equity_curve p =
         map (\<lambda>row. \<lparr>e_date = to_datetime (acc_date row), e_equity = account_value row\<rparr>)
           account_memory"
  using assms
  by (auto simp: build_backtest_payload_def bind_io_def lift_io_def return_io_def utcnow_def
      Let_def split: sum.splits)

text \<open>
  C6, as stated: \<^verbatim>\<open>metrics.final_equity\<close> equals the equity of the last point of the
  equity curve. For a simulation of one step with the account value 100.123 the curve
  ends at 100.123 and the final equity is 100.12.
\<close>

theorem final_equity_counterexample:
  "case build_backtest_payload ''AAPL'' [\<lparr>acc_date = 0, account_value = 100.123\<rparr>]
          [\<lparr>a_date = 0, a_actions = Sequence NdArray [0]\<rparr>]
          [\<lparr>f_date = Some 0, f_tic = Some ''AAPL'', f_close = Some 1, f_other = [Some 0]\<rparr>]
          (build_env_kwargs [''macd'']
             [\<lparr>f_date = Some 0, f_tic = Some ''AAPL'', f_close = Some 1, f_other = [Some 0]\<rparr>])
          0 of
     (Inr p, t) \<Rightarrow>
       e_equity (last (bt_equity_curve p)) = 100.123
       \<and> m_final_equity (bt_metrics p) = 100.12
       \<and> m_final_equity (bt_metrics p) \<noteq> e_equity (last (bt_equity_curve p))
   | (Inl e, t) \<Rightarrow> False"
  by code_simp

text \<open>
  C6, amended. Whenever the backtest payload is built, the equity curve is not empty and
  \<^verbatim>\<open>metrics.final_equity\<close> is the equity of its last point rounded to 2 decimals.
\<close>

theorem final_equity_is_rounded_last_equity:
  assumes "build_backtest_payload symbol account_memory actions test_df env t = (Inr p, t')"
  shows "bt_equity_curve p \<noteq> []
     \<and> m_final_equity (bt_metrics p) = py_round (e_equity (last (bt_equity_curve p))) 2"
proof -
  from assms have m: "calculate_metrics account_memory = Inr (bt_metrics p)"
    and curve: "bt_equity_curve p =
         map (\<lambda>row. \<lparr>e_date = to_datetime (acc_date row), e_equity = account_value row\<rparr>)
           account_memory"
    using build_backtest_payload_result by blast+
  from m have "account_memory \<noteq> []"
    and "m_final_equity (bt_metrics p) = py_round (account_value (last account_memory)) 2"
    using calculate_metrics_final_equity by blast+
  with curve show ?thesis by (simp add: last_map)
qed

theorem final_equity_is_rounded_last_equity_witness:
  "\<exists>p. fst (build_backtest_payload ''AAPL''
            [\<lparr>acc_date = 0, account_value = 100000\<rparr>, \<lparr>acc_date = 1, account_value = 100.123\<rparr>]
            [\<lparr>a_date = 0, a_actions = Sequence NdArray [0]\<rparr>]
            [\<lparr>f_date = Some 0, f_tic = Some ''AAPL'', f_close = Some 1, f_other = [Some 0]\<rparr>]
            (build_env_kwargs [''macd''] []) 0) = Inr p
     \<and> bt_equity_curve p \<noteq> []
     \<and> m_final_equity (bt_metrics p) = py_round (e_equity (last (bt_equity_curve p))) 2"
proof -
  let ?run = "build_backtest_payload ''AAPL''
      [\<lparr>acc_date = 0, account_value = 100000\<rparr>, \<lparr>acc_date = 1, account_value = 100.123\<rparr>]
      [\<lparr>a_date = 0, a_actions = Sequence NdArray [0]\<rparr>]
      [\<lparr>f_date = Some 0, f_tic = Some ''AAPL'', f_close = Some 1, f_other = [Some 0]\<rparr>]
      (build_env_kwargs [''macd''] []) 0"
  have "case ?run of (Inr p, t) \<Rightarrow> t = 0 | (Inl e, t) \<Rightarrow> False"
    by code_simp
  then obtain p where run: "?run = (Inr p, 0)"
    by (auto split: prod.splits sum.splits)
  from final_equity_is_rounded_last_equity [OF run] run show ?thesis by simp
qed

section \<open>The price history\<close>










lemma example_pipeline_run:
  "\<exists>p b. run_pipeline example_externals example_settings ''AAPL'' 0 = (Inr (p, b), 5000000)
     \<and> length (p_price_history p) = 100"
proof -
  have "case run_pipeline example_externals example_settings ''AAPL'' 0 of
      (Inr (p, b), t) \<Rightarrow> t = 5000000 \<and> length (p_price_history p) = 100
    | (Inl e, t) \<Rightarrow> False"
    by code_simp
  then show ?thesis
    by (auto split: prod.splits sum.splits)
qed


lemma upper_example: "upper ''aapl'' = ''AAPL''"
  by code_simp



section \<open>The prediction cache\<close>

lemma get_or_train_hit:
  assumes "cache s (upper symbol) = Some entry" and "clock s < expires_at entry"
  shows "get_or_train ext cfg symbol s = (Inr entry, s)"
  using assms by (simp add: get_or_train_def)

lemma get_or_train_miss:
  assumes "\<forall>entry. cache s (upper symbol) = Some entry \<longrightarrow> expires_at entry \<le> clock s"
  shows "get_or_train ext cfg symbol s =
     (case run_pipeline ext cfg (upper symbol) (clock s) of
        (Inl e, t') \<Rightarrow> (Inl e, s\<lparr>clock := t'\<rparr>)
      | (Inr (p, b), t') \<Rightarrow>
          (Inr \<lparr>prediction = p, backtest = b,
                expires_at = clock s + timedelta_minutes (cache_ttl_minutes cfg)\<rparr>,
           \<lparr>clock = t',
            cache = (cache s)(upper symbol \<mapsto>
              \<lparr>prediction = p, backtest = b,
               expires_at = clock s + timedelta_minutes (cache_ttl_minutes cfg)\<rparr>)\<rparr>))"
proof (cases "cache s (upper symbol)")
  case None
  then show ?thesis
    by (simp add: get_or_train_def Let_def split: prod.splits sum.splits)
next
  case (Some entry)
  with assms have "\<not> clock s < expires_at entry" by simp
  with Some show ?thesis
    by (simp add: get_or_train_def Let_def split: prod.splits sum.splits)
qed

lemma get_or_train_stores:
  assumes "get_or_train ext cfg symbol s = (Inr entry, s')"
  shows "cache s' (upper symbol) = Some entry"
proof (cases "\<forall>old. cache s (upper symbol) = Some old \<longrightarrow> expires_at old \<le> clock s")
  case True
  from assms show ?thesis
    unfolding get_or_train_miss [OF True]
    by (auto split: prod.splits sum.splits)
next
  case False
  then obtain old where "cache s (upper symbol) = Some old" and "clock s < expires_at old"
    by auto
  with assms show ?thesis
    by (auto simp: get_or_train_hit)
qed

text \<open>
  C2. When the cache holds an entry for the upper-cased symbol and the clock is before
  its expiry, \<^verbatim>\<open>_get_or_train\<close> returns that entry and leaves the service (cache and
  clock) as it is, whatever the external capabilities would do; the two payload getters
  return the entry's payloads. In particular, after any call that returned an entry, a
  call for a symbol with the same upper-cased form at an instant before the expiry
  returns the same entry.
\<close>

theorem cache_hit_returns_stored_entry:
  fixes ext :: "'m externals"
  assumes "cache s (upper symbol) = Some entry" and "clock s < expires_at entry"
  shows "get_or_train ext cfg symbol s = (Inr entry, s)
   \<and> get_prediction_payload ext cfg symbol s = (Inr (prediction entry), s)
   \<and> get_backtest_payload ext cfg symbol s = (Inr (backtest entry), s)
   \<and> (\<forall>(first_ext :: 'n externals) first_symbol s0 s1 later.
        get_or_train first_ext cfg first_symbol s0 = (Inr entry, s1)
        \<and> upper first_symbol = upper symbol \<and> later < expires_at entry
        \<longrightarrow> get_or_train ext cfg symbol (s1\<lparr>clock := later\<rparr>)
              = (Inr entry, s1\<lparr>clock := later\<rparr>))"
proof -
  have hit: "get_or_train ext cfg symbol s = (Inr entry, s)"
    using assms by (rule get_or_train_hit)
  have again: "get_or_train ext cfg symbol (s1\<lparr>clock := later\<rparr>) = (Inr entry, s1\<lparr>clock := later\<rparr>)"
    if "get_or_train first_ext cfg first_symbol s0 = (Inr entry, s1)"
      and "upper first_symbol = upper symbol" and "later < expires_at entry"
    for first_ext :: "'n externals" and first_symbol s0 s1 later
  proof -
    from that(1,2) have "cache s1 (upper symbol) = Some entry"
      using get_or_train_stores by metis
    with that(3) show ?thesis
      by (simp add: get_or_train_hit)
  qed
  have getters: "get_prediction_payload ext cfg symbol s = (Inr (prediction entry), s)"
    "get_backtest_payload ext cfg symbol s = (Inr (backtest entry), s)"
    using hit by (simp_all add: get_prediction_payload_def get_backtest_payload_def)
  from hit getters again show ?thesis
    by blast
qed

theorem cache_hit_returns_stored_entry_witness:
  "get_or_train failing_externals example_settings ''aapl'' (cached_service 7)
     = (Inr example_entry, cached_service 7)
   \<and> get_prediction_payload failing_externals example_settings ''aapl'' (cached_service 7)
     = (Inr (prediction example_entry), cached_service 7)
   \<and> get_or_train failing_externals example_settings ''aapl'' ((cached_service 7)\<lparr>clock := 8\<rparr>)
     = (Inr example_entry, (cached_service 7)\<lparr>clock := 8\<rparr>)"
proof -
  have stored: "cache (cached_service 7) (upper ''aapl'') = Some example_entry"
    by (simp add: upper_example cached_service_def)
  have fresh: "clock (cached_service 7) < expires_at example_entry"
    by (simp add: cached_service_def example_entry_def timedelta_minutes_def)
  have later: "8 < expires_at example_entry"
    by (simp add: example_entry_def timedelta_minutes_def)
  note hit = cache_hit_returns_stored_entry [OF stored fresh,
      of failing_externals example_settings]
  from hit have first: "get_or_train failing_externals example_settings ''aapl'' (cached_service 7)
     = (Inr example_entry, cached_service 7)"
    and getter: "get_prediction_payload failing_externals example_settings ''aapl''
       (cached_service 7) = (Inr (prediction example_entry), cached_service 7)"
    by blast+
  have "get_or_train failing_externals example_settings ''aapl'' ((cached_service 7)\<lparr>clock := 8\<rparr>)
     = (Inr example_entry, (cached_service 7)\<lparr>clock := 8\<rparr>)"
    using hit [THEN conjunct2, THEN conjunct2, THEN conjunct2, rule_format,
        of failing_externals "''aapl''" "cached_service 7" "cached_service 7" 8]
      first later
    by simp
  with first getter show ?thesis
    by simp
qed

text \<open>
  C3, as stated: the stored entry expires at the time of insertion plus the TTL. In a run
  whose download takes 5 seconds, with a TTL of 60 minutes, the entry is stored when the
  clock reads 5 seconds and expires at 60 minutes, not at 60 minutes and 5 seconds.
\<close>

theorem fresh_expiry_counterexample:
  "case get_or_train example_externals example_settings ''aapl'' example_service of
     (Inr entry, s') \<Rightarrow>
       cache s' ''AAPL'' = Some entry \<and> clock s' = 5000000
       \<and> expires_at entry = timedelta_minutes 60
       \<and> expires_at entry \<noteq> clock s' + timedelta_minutes (cache_ttl_minutes example_settings)
   | (Inl e, s') \<Rightarrow> False"
proof -
  from example_pipeline_run obtain p b
    where run: "run_pipeline example_externals example_settings ''AAPL'' 0 = (Inr (p, b), 5000000)"
    by blast
  have miss: "\<forall>entry. cache example_service (upper ''aapl'') = Some entry
      \<longrightarrow> expires_at entry \<le> clock example_service"
    by (simp add: example_service_def)
  show ?thesis
    unfolding get_or_train_miss [OF miss]
    using run
    by (simp add: upper_example example_service_def example_settings_def timedelta_minutes_def)
qed

text \<open>
  C3, amended. On a cache miss (no entry for the upper-cased symbol, or an expired one),
  when the pipeline completes, the entry stored and returned for the symbol expires at
  the clock reading taken at the start of the call, before the lookup and the pipeline
  run, plus the configured TTL.
\<close>

theorem miss_stores_expiry_from_call_start:
  assumes "\<forall>entry. cache s (upper symbol) = Some entry \<longrightarrow> expires_at entry \<le> clock s"
    and "run_pipeline ext cfg (upper symbol) (clock s) = (Inr (p, b), t')"
  shows "\<exists>entry s'. get_or_train ext cfg symbol s = (Inr entry, s')
     \<and> cache s' (upper symbol) = Some entry
     \<and> prediction entry = p \<and> backtest entry = b
     \<and> expires_at entry = clock s + timedelta_minutes (cache_ttl_minutes cfg)
     \<and> clock s' = t'"
  unfolding get_or_train_miss [OF assms(1)] using assms(2) by simp

theorem miss_stores_expiry_from_call_start_witness:
  "\<exists>entry s'. get_or_train example_externals example_settings ''aapl'' example_service
       = (Inr entry, s')
     \<and> cache s' ''AAPL'' = Some entry
     \<and> expires_at entry = 3600000000
     \<and> clock s' = 5000000"
proof -
  from example_pipeline_run obtain p b
    where run: "run_pipeline example_externals example_settings (upper ''aapl'')
        (clock example_service) = (Inr (p, b), 5000000)"
    by (auto simp: upper_example example_service_def)
  have miss: "\<forall>entry. cache example_service (upper ''aapl'') = Some entry
      \<longrightarrow> expires_at entry \<le> clock example_service"
    by (simp add: example_service_def)
  from miss_stores_expiry_from_call_start [OF miss run] show ?thesis
    by (auto simp: upper_example example_service_def example_settings_def timedelta_minutes_def)
qed

text \<open>
  C10. On a cache miss, when the pipeline raises, \<^verbatim>\<open>_get_or_train\<close> raises the same
  exception and the cache is the one from before the call: no entry is inserted, replaced
  or removed. More generally the cache is unchanged whenever \<^verbatim>\<open>_get_or_train\<close> raises.
\<close>

theorem failed_pipeline_leaves_cache:
  fixes ext :: "'m externals"
  assumes "\<forall>entry. cache s (upper symbol) = Some entry \<longrightarrow> expires_at entry \<le> clock s"
    and "run_pipeline ext cfg (upper symbol) (clock s) = (Inl e, t')"
  shows "(\<exists>s'. get_or_train ext cfg symbol s = (Inl e, s') \<and> cache s' = cache s)
   \<and> (\<forall>(any_ext :: 'n externals) any_symbol s0 err s1.
        get_or_train any_ext cfg any_symbol s0 = (Inl err, s1) \<longrightarrow> cache s1 = cache s0)"
proof -
  have first: "\<exists>s'. get_or_train ext cfg symbol s = (Inl e, s') \<and> cache s' = cache s"
    unfolding get_or_train_miss [OF assms(1)] using assms(2) by simp
  have second: "cache s1 = cache s0"
    if "get_or_train any_ext cfg any_symbol s0 = (Inl err, s1)"
    for any_ext :: "'n externals" and any_symbol s0 err s1
    using that
    by (auto simp: get_or_train_def Let_def split: option.splits if_splits prod.splits sum.splits)
  from first second show ?thesis by blast
qed

theorem failed_pipeline_leaves_cache_witness:
  "\<exists>s'. get_or_train failing_externals example_settings ''aapl''
       (cached_service (timedelta_minutes 61))
       = (Inl (RuntimeError ''connection reset''), s')
     \<and> cache s' = cache (cached_service (timedelta_minutes 61))
     \<and> cache s' ''AAPL'' = Some example_entry"
proof -
  let ?s = "cached_service (timedelta_minutes 61)"
  have miss: "\<forall>entry. cache ?s (upper ''aapl'') = Some entry \<longrightarrow> expires_at entry \<le> clock ?s"
    by (simp add: cached_service_def example_entry_def timedelta_minutes_def upper_example)
  have run: "run_pipeline failing_externals example_settings (upper ''aapl'') (clock ?s)
      = (Inl (RuntimeError ''connection reset''), timedelta_minutes 61 + 5000000)"
    by (simp add: run_pipeline_def download_market_data_def failing_externals_def
        example_externals_def bind_io_def utcnow_def cached_service_def)
  have kept: "cache ?s ''AAPL'' = Some example_entry"
    by (simp add: cached_service_def)
  from failed_pipeline_leaves_cache [OF miss run] kept show ?thesis
    by auto
qed

end
